theory Spec2Isabelle
  imports Complex_Main
begin

section \<open>JavaScript values\<close>

text \<open>
  The program is JavaScript: a field of a request body or of a database row may be
  absent (\<open>undefined\<close>), \<open>null\<close>, or hold a value. The three are kept apart because
  the code tells them apart (\<open>!==\<close>, \<open>=== undefined\<close>) and because \<open>||\<close> and \<open>!\<close>
  go by truthiness. Coordinates and distances are read as exact reals. A version number
  is an integer that a device may choose freely, so the one sum the code makes on it is
  the sum of IEEE doubles.
\<close>

datatype 'a jsopt = Undefined | Null | Val 'a

text \<open>
  A timestamp is kept as what \<open>new Date(v).getTime()\<close> makes of it: milliseconds since
  the epoch, or \<open>Invalid Date\<close> for a non-empty string that does not parse.
\<close>

datatype jsdate = InvalidDate | At int

text \<open>
  The messages of the spoofing checks carry numbers; they are kept as terms, not as the
  formatted English sentences.
\<close>

datatype spoof_message =
    MockLocationDetected
  | GpsAccuracyTooLow int
  | UnusuallyPreciseReading real
  | InvalidTimeSequence
  | TravelSpeedExceeds int

text \<open>The values stored under the keys of a \<open>metadata\<close> object.\<close>

datatype json =
    JNull
  | JBool bool
  | JStr string
  | JNum real
  | JDate int
  | JList "string list"
  | JMessages "spoof_message list"

type_synonym jsobject = "string \<rightharpoonup> json"

fun truthy_str :: "string jsopt \<Rightarrow> bool" where
  "truthy_str (Val s) = (s \<noteq> [])"
| "truthy_str _ = False"

fun truthy_int :: "int jsopt \<Rightarrow> bool" where
  "truthy_int (Val n) = (n \<noteq> 0)"
| "truthy_int _ = False"

fun truthy_real :: "real jsopt \<Rightarrow> bool" where
  "truthy_real (Val x) = (x \<noteq> 0)"
| "truthy_real _ = False"

fun truthy_val :: "'a jsopt \<Rightarrow> bool" where
  "truthy_val (Val _) = True"
| "truthy_val _ = False"

text \<open>\<open>a || b\<close> on values whose falsy members are given by \<open>t\<close>.\<close>

definition js_or :: "('a jsopt \<Rightarrow> bool) \<Rightarrow> 'a jsopt \<Rightarrow> 'a jsopt \<Rightarrow> 'a jsopt" where
  "js_or t a b = (if t a then a else b)"

text \<open>Spreading \<open>undefined\<close> or \<open>null\<close> into an object literal adds nothing.\<close>

fun spread :: "jsobject jsopt \<Rightarrow> jsobject" where
  "spread (Val m) = m"
| "spread _ = Map.empty"

section \<open>Attendance records\<close>

text \<open>
  One record type serves the rows of table \<open>attendance\<close> and the records a device sends
  for synchronisation: the code passes both around as plain objects with these keys.
\<close>

record attendance =
  rec_id :: "nat jsopt"
  user_id :: "string jsopt"
  facility_id :: "string jsopt"
  clock_in_time :: "jsdate jsopt"
  clock_out_time :: "jsdate jsopt"
  clock_in_latitude :: "real jsopt"
  clock_in_longitude :: "real jsopt"
  clock_out_latitude :: "real jsopt"
  clock_out_longitude :: "real jsopt"
  clock_in_accuracy_meters :: "real jsopt"
  clock_in_distance_meters :: "real jsopt"
  clock_out_accuracy_meters :: "real jsopt"
  clock_out_distance_meters :: "real jsopt"
  device_fingerprint :: "string jsopt"
  validation_status :: "string jsopt"
  status :: "string jsopt"
  rec_notes :: "string jsopt"
  synced :: "bool jsopt"
  client_timestamp :: "jsdate jsopt"
  server_timestamp :: "jsdate jsopt"
  device_id :: "string jsopt"
  sync_version :: "int jsopt"
  conflict_resolution_strategy :: "string jsopt"
  metadata :: "jsobject jsopt"
  created_at :: "jsdate jsopt"

definition blank_record :: attendance where
  "blank_record = \<lparr> rec_id = Undefined, user_id = Undefined, facility_id = Undefined,
     clock_in_time = Undefined, clock_out_time = Undefined,
     clock_in_latitude = Undefined, clock_in_longitude = Undefined,
     clock_out_latitude = Undefined, clock_out_longitude = Undefined,
     clock_in_accuracy_meters = Undefined, clock_in_distance_meters = Undefined,
     clock_out_accuracy_meters = Undefined, clock_out_distance_meters = Undefined,
     device_fingerprint = Undefined, validation_status = Undefined,
     status = Undefined, rec_notes = Undefined, synced = Undefined,
     client_timestamp = Undefined, server_timestamp = Undefined,
     device_id = Undefined, sync_version = Undefined,
     conflict_resolution_strategy = Undefined, metadata = Undefined,
     created_at = Undefined \<rparr>"

section \<open>syncResolver.js: validateSyncMetadata\<close>

record validation =
  isValid :: bool
  v_errors :: "string list"

definition msPerDay :: int where
  "msPerDay = 1000 * 60 * 60 * 24"

text \<open>
  \<open>now\<close> is the reading of \<open>new Date()\<close>. A comparison with \<open>Invalid Date\<close> is a
  comparison with NaN and is false, so such a timestamp adds no error.
\<close>

definition validateSyncMetadata :: "int \<Rightarrow> attendance \<Rightarrow> validation" where
  "validateSyncMetadata now record =
    (let errors0 = (if \<not> truthy_str (device_id record)
                    then [''device_id is required for sync''] else []);
         errors1 = (if \<not> truthy_val (client_timestamp record)
                    then errors0 @ [''client_timestamp is required for sync''] else errors0);
         errors2 = (case client_timestamp record of
                      Val (At clientTime) \<Rightarrow>
                        (let e = (if now - clientTime > 30 * msPerDay
                                  then errors1 @ [''client_timestamp is more than 30 days old'']
                                  else errors1)
                         in if clientTime > now
                            then e @ [''client_timestamp is in the future''] else e)
                    | _ \<Rightarrow> errors1)
     in \<lparr> isValid = (errors2 = []), v_errors = errors2 \<rparr>)"


section \<open>syncResolver.js: detectConflict, mergeRecords, resolveConflict\<close>

text \<open>
  \<open>x || d\<close> on a sync version: \<open>undefined\<close>, \<open>null\<close> and \<open>0\<close> give the default.
\<close>

definition version_or :: "int jsopt \<Rightarrow> int \<Rightarrow> int" where
  "version_or v d = (case v of Val n \<Rightarrow> (if n \<noteq> 0 then n else d) | _ \<Rightarrow> d)"

text \<open>
  One round of the loop of \<open>detectConflict\<close> for a field whose name contains \<open>time\<close>.
  Two present values that differ as raw values are compared as instants, with a second
  of tolerance; a comparison with \<open>Invalid Date\<close> is false. Two equal instants never
  count as a conflict, whether or not their raw values are the same object.
\<close>

definition time_field_conflict :: "jsdate jsopt \<Rightarrow> jsdate jsopt \<Rightarrow> bool" where
  "time_field_conflict clientValue serverValue =
    (if clientValue \<noteq> serverValue then
       (if truthy_val clientValue \<and> truthy_val serverValue then
          (case (clientValue, serverValue) of
             (Val (At clientTime), Val (At serverTime)) \<Rightarrow> \<bar>clientTime - serverTime\<bar> > 1000
           | _ \<Rightarrow> False)
        else True)
     else False)"

definition detectConflict :: "attendance \<Rightarrow> attendance \<Rightarrow> bool" where
  "detectConflict clientRecord serverRecord =
    (if sync_version clientRecord \<noteq> sync_version serverRecord then True
     else if time_field_conflict (clock_in_time clientRecord) (clock_in_time serverRecord) then True
     else if time_field_conflict (clock_out_time clientRecord) (clock_out_time serverRecord) then True
     else if status clientRecord \<noteq> status serverRecord then True
     else False)"

text \<open>
  \<open>x + 1\<close> on a double that holds the integer \<open>x\<close>. Up to \<open>2^53\<close> in absolute value
  the sum is exact. From there to \<open>2^54\<close> the doubles are the even integers, \<open>x + 1\<close>
  lies half way between two of them and is rounded to the one whose significand is
  even; beyond, \<open>x\<close> itself is the nearest double.
\<close>

definition double_succ :: "int \<Rightarrow> int" where
  "double_succ x =
    (if - (2 ^ 53) \<le> x \<and> x < 2 ^ 53 then x + 1
     else if - (2 ^ 54) \<le> x \<and> x < 2 ^ 54 then (if even (x div 2) then x else x + 2)
     else x)"

text \<open>
  The larger of the two versions as \<open>mergeRecords\<close> reads them, a missing or zero one
  counting as 1.
\<close>

abbreviation larger_version :: "attendance \<Rightarrow> attendance \<Rightarrow> int" where
  "larger_version clientRecord serverRecord \<equiv>
     max (version_or (sync_version clientRecord) 1) (version_or (sync_version serverRecord) 1)"

text \<open>\<open>now\<close> is the reading of \<open>new Date()\<close> inside \<open>mergeRecords\<close>.\<close>

definition mergeRecords :: "int \<Rightarrow> attendance \<Rightarrow> attendance \<Rightarrow> string \<Rightarrow> attendance" where
  "mergeRecords now clientRecord serverRecord preference =
    (let base = (if preference = ''client'' then clientRecord else serverRecord);
         other = (if preference = ''client'' then serverRecord else clientRecord)
     in base \<lparr> rec_id := rec_id serverRecord,
               created_at := created_at serverRecord,
               server_timestamp := Val (At now),
               sync_version := Val (double_succ (larger_version clientRecord serverRecord)),
               synced := Val True,
               metadata := Val ((spread (metadata other) ++ spread (metadata base))
                                 (''conflict_resolved'' \<mapsto> JBool True,
                                  ''resolution_strategy'' \<mapsto> JStr preference,
                                  ''resolved_at'' \<mapsto> JDate now)) \<rparr>)"

record resolution =
  resolved :: "attendance option"
  action :: string
  conflict :: bool
  resolution_name :: "string option"
  res_clientRecord :: "attendance option"
  res_serverRecord :: "attendance option"

text \<open>The server record is \<open>None\<close> when the caller found none (\<open>undefined\<close>).\<close>

definition resolveConflict ::
    "int \<Rightarrow> attendance \<Rightarrow> attendance option \<Rightarrow> string \<Rightarrow> resolution" where
  "resolveConflict now clientRecord serverRecord strategy =
    (case serverRecord of
       None \<Rightarrow> \<lparr> resolved = Some clientRecord, action = ''insert'', conflict = False,
                 resolution_name = None, res_clientRecord = None, res_serverRecord = None \<rparr>
     | Some server \<Rightarrow>
        (if \<not> detectConflict clientRecord server then
           \<lparr> resolved = Some server, action = ''no_change'', conflict = False,
             resolution_name = None, res_clientRecord = None, res_serverRecord = None \<rparr>
         else if strategy = ''client_wins'' then
           \<lparr> resolved = Some (mergeRecords now clientRecord server ''client''),
             action = ''update'', conflict = True,
             resolution_name = Some ''client_wins'',
             res_clientRecord = None, res_serverRecord = None \<rparr>
         else if strategy = ''server_wins'' then
           \<lparr> resolved = Some server, action = ''no_change'', conflict = True,
             resolution_name = Some ''server_wins'',
             res_clientRecord = None, res_serverRecord = None \<rparr>
         else if strategy = ''manual'' then
           \<lparr> resolved = None, action = ''manual_review'', conflict = True,
             resolution_name = Some ''manual'',
             res_clientRecord = Some clientRecord, res_serverRecord = Some server \<rparr>
         else
           \<lparr> resolved = Some server, action = ''no_change'', conflict = True,
             resolution_name = Some ''server_wins_default'',
             res_clientRecord = None, res_serverRecord = None \<rparr>))"


section \<open>The database\<close>

text \<open>
  Tables are lists of rows in insertion order. A generated primary key of table
  \<open>attendance\<close> and of \<open>user_sessions\<close> is the number of rows the table holds at the
  insert: no modelled operation deletes a row, and a transaction that is rolled back
  leaves the table as it found it, so the key is fresh in the table.
\<close>

record facility =
  f_id :: string
  f_name :: string
  f_latitude :: "real option"
  f_longitude :: "real option"
  f_geofence_radius :: "int option"
  f_is_active :: bool

record user =
  u_id :: string
  u_email :: string
  u_password_hash :: string
  u_role :: string
  u_facility_id :: "string option"
  u_is_active :: bool
  u_last_login_at :: "int option"

datatype entity_ref = AttendanceRef nat | UserRef string

text \<open>A row of the audit table \<open>activities\<close>, without its free texts.\<close>

record activity =
  act_user_id :: string
  act_action :: string
  act_entity_type :: string
  act_entity_id :: "entity_ref option"

record user_session =
  s_id :: nat
  s_user_id :: string
  s_device_fingerprint :: "string option"
  s_token_hash :: string
  s_ip_address :: "string option"
  s_user_agent :: "string option"
  s_is_active :: bool
  s_expires_at :: int
  s_invalidated_at :: "int option"
  s_invalidation_reason :: "string option"
  s_created_at :: int

record user_device =
  d_user_id :: string
  d_device_fingerprint :: string
  d_device_id :: "string option"
  d_last_used_at :: int

record database =
  attendance_table :: "attendance list"
  facilities_table :: "facility list"
  users_table :: "user list"
  activities_table :: "activity list"
  user_sessions_table :: "user_session list"
  user_devices_table :: "user_device list"

text \<open>A query parameter that is \<open>undefined\<close> is sent as \<open>NULL\<close>.\<close>

fun to_sql :: "'a jsopt \<Rightarrow> 'a jsopt" where
  "to_sql Undefined = Null"
| "to_sql v = v"

text \<open>\<open>a = b\<close> in SQL: never true when a side is \<open>NULL\<close>.\<close>

fun sql_eq :: "'a jsopt \<Rightarrow> 'a jsopt \<Rightarrow> bool" where
  "sql_eq (Val a) (Val b) = (a = b)"
| "sql_eq _ _ = False"

definition log_activity :: "activity \<Rightarrow> database \<Rightarrow> database" where
  "log_activity a db = db \<lparr> activities_table := activities_table db @ [a] \<rparr>"

section \<open>attendance.repository.js: bulkSync\<close>

record sync_error =
  se_record :: attendance
  se_error :: string

record sync_results =
  inserted :: "attendance list"
  updated :: "attendance list"
  errors :: "sync_error list"

text \<open>
  The row that the \<open>INSERT\<close> of \<open>bulkSync\<close> writes for a record. The columns it
  does not name take their defaults: \<open>now\<close> for the two timestamps, \<open>verified\<close> for
  the validation status, \<open>NULL\<close> for the rest.
\<close>

definition bulkSync_new_row :: "int \<Rightarrow> nat \<Rightarrow> attendance \<Rightarrow> attendance" where
  "bulkSync_new_row now new_id record =
    \<lparr> rec_id = Val new_id,
      user_id = to_sql (user_id record),
      facility_id = to_sql (facility_id record),
      clock_in_time = to_sql (clock_in_time record),
      clock_out_time = js_or truthy_val (clock_out_time record) Null,
      clock_in_latitude = js_or truthy_real (clock_in_latitude record) Null,
      clock_in_longitude = js_or truthy_real (clock_in_longitude record) Null,
      clock_out_latitude = js_or truthy_real (clock_out_latitude record) Null,
      clock_out_longitude = js_or truthy_real (clock_out_longitude record) Null,
      clock_in_accuracy_meters = Null,
      clock_in_distance_meters = Null,
      clock_out_accuracy_meters = Null,
      clock_out_distance_meters = Null,
      device_fingerprint = Null,
      validation_status = Val ''verified'',
      status = js_or truthy_str (status record) (Val ''completed''),
      rec_notes = js_or truthy_str (rec_notes record) Null,
      synced = Val True,
      client_timestamp = to_sql (client_timestamp record),
      server_timestamp = Val (At now),
      device_id = to_sql (device_id record),
      sync_version = Val (version_or (sync_version record) 1),
      conflict_resolution_strategy =
        js_or truthy_str (conflict_resolution_strategy record) (Val ''server_wins''),
      metadata = Val (spread (metadata record)),
      created_at = Val (At now) \<rparr>"

text \<open>
  A number read from a row for a comparison or a sum: \<open>null\<close> counts as \<open>0\<close>, and
  \<open>undefined\<close> as NaN (\<open>None\<close>), with which every comparison is false.
\<close>

fun to_number :: "int jsopt \<Rightarrow> int option" where
  "to_number (Val n) = Some n"
| "to_number Null = Some 0"
| "to_number Undefined = None"

definition version_is_higher :: "attendance \<Rightarrow> attendance \<Rightarrow> bool" where
  "version_is_higher record existingRecord =
    (case to_number (sync_version existingRecord) of
       Some v \<Rightarrow> version_or (sync_version record) 1 > v
     | None \<Rightarrow> False)"

text \<open>
  The row after the \<open>UPDATE\<close> of \<open>bulkSync\<close>. It is only reached when
  \<open>version_is_higher\<close> holds, so the version of the existing row is a number there.
\<close>

definition bulkSync_updated_row :: "attendance \<Rightarrow> attendance \<Rightarrow> attendance" where
  "bulkSync_updated_row record existingRecord =
    existingRecord
      \<lparr> clock_out_time :=
          to_sql (js_or truthy_val (clock_out_time record) (clock_out_time existingRecord)),
        clock_out_latitude :=
          to_sql (js_or truthy_real (clock_out_latitude record) (clock_out_latitude existingRecord)),
        clock_out_longitude :=
          to_sql (js_or truthy_real (clock_out_longitude record) (clock_out_longitude existingRecord)),
        status := to_sql (js_or truthy_str (status record) (status existingRecord)),
        rec_notes := to_sql (js_or truthy_str (rec_notes record) (rec_notes existingRecord)),
        sync_version :=
          (if truthy_int (sync_version record) then sync_version record
           else (case to_number (sync_version existingRecord) of
                   Some v \<Rightarrow> Val (double_succ v) | None \<Rightarrow> Null)),
        metadata := Val (spread (metadata existingRecord) ++ spread (metadata record)) \<rparr>"

text \<open>
  \<open>SELECT * FROM attendance WHERE device_id = $1 AND client_timestamp = $2\<close>, of which
  the code reads the first row. Timestamps are compared as the instants that
  JavaScript reads from them. The strings it cannot read are one value here, whatever
  PostgreSQL makes of them, so the properties of \<open>bulkSync\<close> are stated for records
  whose client timestamp is an instant.
\<close>

definition find_existing :: "attendance list \<Rightarrow> attendance \<Rightarrow> attendance option" where
  "find_existing table record =
    (case filter (\<lambda>row. sql_eq (device_id row) (device_id record) \<and>
                         sql_eq (client_timestamp row) (client_timestamp record)) table of
       [] \<Rightarrow> None
     | row # _ \<Rightarrow> Some row)"

text \<open>\<open>UPDATE attendance SET ... WHERE id = $8\<close>.\<close>

definition replace_row :: "attendance \<Rightarrow> attendance list \<Rightarrow> attendance list" where
  "replace_row new_row table =
     map (\<lambda>row. if sql_eq (rec_id row) (rec_id new_row) then new_row else row) table"

text \<open>
  The statements that \<open>bulkSync\<close> sends, with what they carry. Whether the database
  refuses one (a value it cannot read as a timestamp, a \<open>NOT NULL\<close> column without
  value, a check or a foreign key that fails, an integer out of range) is a parameter:
  \<open>reject q\<close> is the message with which statement \<open>q\<close> fails, if it does.
\<close>

datatype sync_statement =
    SelectExisting "string jsopt" "jsdate jsopt"
  | InsertRow attendance
  | UpdateRow attendance

text \<open>
  The whole loop runs between \<open>BEGIN\<close> and \<open>COMMIT\<close> on one client, with no
  savepoint. The state of the transaction is the table as the transaction sees it, and
  whether a statement has failed in it: from then on PostgreSQL refuses every statement
  (error 25P02), and \<open>COMMIT\<close> rolls back.
\<close>

record sync_transaction =
  tx_table :: "attendance list"
  tx_failed :: bool

definition transaction_aborted :: string where
  "transaction_aborted =
     ''current transaction is aborted, commands ignored until end of transaction block''"

text \<open>
  The body of the loop for one record. A statement that fails throws; the \<open>catch\<close> of
  the loop body notes the message in \<open>errors\<close> and the loop goes on, in a transaction
  that has failed.
\<close>

definition bulkSync_record ::
    "(sync_statement \<Rightarrow> string option) \<Rightarrow> int \<Rightarrow> sync_transaction \<times> sync_results \<Rightarrow>
     attendance \<Rightarrow> sync_transaction \<times> sync_results" where
  "bulkSync_record reject now st record =
    (let tx = fst st; results = snd st; table = tx_table tx;
         thrown = (\<lambda>msg. (tx \<lparr> tx_failed := True \<rparr>,
                           results \<lparr> errors := errors results @
                             [\<lparr> se_record = record, se_error = msg \<rparr>] \<rparr>))
     in if tx_failed tx then thrown transaction_aborted
        else
          (case reject (SelectExisting (to_sql (device_id record))
                                       (to_sql (client_timestamp record))) of
             Some msg \<Rightarrow> thrown msg
           | None \<Rightarrow>
              (case find_existing table record of
                 None \<Rightarrow>
                   (let row = bulkSync_new_row now (length table) record in
                    case reject (InsertRow row) of
                      Some msg \<Rightarrow> thrown msg
                    | None \<Rightarrow> (tx \<lparr> tx_table := table @ [row] \<rparr>,
                               results \<lparr> inserted := inserted results @ [row] \<rparr>))
               | Some existingRecord \<Rightarrow>
                   (if version_is_higher record existingRecord then
                      (let row = bulkSync_updated_row record existingRecord in
                       case reject (UpdateRow row) of
                         Some msg \<Rightarrow> thrown msg
                       | None \<Rightarrow> (tx \<lparr> tx_table := replace_row row table \<rparr>,
                                  results \<lparr> updated := updated results @ [row] \<rparr>))
                    else (tx, results)))))"

text \<open>
  \<open>bulkSync\<close>: the loop over the records, then \<open>COMMIT\<close>. In a transaction that has
  failed, \<open>COMMIT\<close> ends without an error and nothing of the batch is kept; the
  results are returned as the loop left them.
\<close>

definition bulkSync ::
    "(sync_statement \<Rightarrow> string option) \<Rightarrow> int \<Rightarrow> database \<Rightarrow> attendance list
      \<Rightarrow> database \<times> sync_results" where
  "bulkSync reject now db records =
    (let st = foldl (bulkSync_record reject now)
                (\<lparr> tx_table = attendance_table db, tx_failed = False \<rparr>,
                 \<lparr> inserted = [], updated = [], errors = [] \<rparr>) records
     in (if tx_failed (fst st) then db
         else db \<lparr> attendance_table := tx_table (fst st) \<rparr>,
         snd st))"

section \<open>attendance.service.js: syncOfflineRecords\<close>

record validation_error =
  ve_index :: nat
  ve_errors :: "string list"
  ve_record :: attendance

record sync_summary =
  total_submitted :: nat
  valid_records :: nat
  sum_inserted :: nat
  sum_updated :: nat
  sum_failed :: nat
  sum_validation_errors :: nat

record sync_response =
  success :: bool
  summary :: "sync_summary option"
  validation_errors :: "validation_error list"
  sync_errors :: "sync_error list"

text \<open>
  The first loop of \<open>syncOfflineRecords\<close>, from index \<open>i\<close> on: the validation errors
  and the valid records, each in the order of the batch.
\<close>

fun validate_records ::
    "int \<Rightarrow> string \<Rightarrow> nat \<Rightarrow> attendance list \<Rightarrow> validation_error list \<times> attendance list" where
  "validate_records now uid i [] = ([], [])"
| "validate_records now uid i (r # rs) =
    (let record = r \<lparr> user_id := Val uid \<rparr>;
         validation = validateSyncMetadata now record;
         rest = validate_records now uid (Suc i) rs
     in if \<not> isValid validation
        then (\<lparr> ve_index = i, ve_errors = v_errors validation, ve_record = record \<rparr> # fst rest,
              snd rest)
        else (fst rest, record # snd rest))"

definition syncOfflineRecords ::
    "(sync_statement \<Rightarrow> string option) \<Rightarrow> int \<Rightarrow> database \<Rightarrow> attendance list \<Rightarrow> user
      \<Rightarrow> database \<times> sync_response" where
  "syncOfflineRecords reject now db records usr =
    (let checked = validate_records now (u_id usr) 0 records;
         validationErrors = fst checked;
         validRecords = snd checked
     in if length validRecords = 0 then
          (db, \<lparr> success = False, summary = None,
                 validation_errors = validationErrors, sync_errors = [] \<rparr>)
        else
          (let synced_db = bulkSync reject now db validRecords;
               syncResults = snd synced_db;
               db' = log_activity
                       \<lparr> act_user_id = u_id usr, act_action = ''sync'',
                         act_entity_type = ''attendance'', act_entity_id = None \<rparr>
                       (fst synced_db)
           in (db', \<lparr> success = True,
                       summary = Some \<lparr> total_submitted = length records,
                                        valid_records = length validRecords,
                                        sum_inserted = length (inserted syncResults),
                                        sum_updated = length (updated syncResults),
                                        sum_failed = length (errors syncResults),
                                        sum_validation_errors = length validationErrors \<rparr>,
                       validation_errors = validationErrors,
                       sync_errors = errors syncResults \<rparr>)))"


section \<open>sessions.repository.js\<close>

text \<open>
  \<open>hashToken\<close> is SHA-256 of the token in hexadecimal. The functions below take it as a
  parameter \<open>hashToken\<close>.
\<close>

text \<open>\<open>x || null\<close> on an optional string: the empty string is falsy.\<close>

fun or_null :: "string option \<Rightarrow> string option" where
  "or_null (Some s) = (if s = [] then None else Some s)"
| "or_null None = None"

definition createSession ::
    "(string \<Rightarrow> string) \<Rightarrow> int \<Rightarrow> database \<Rightarrow> string \<Rightarrow> string \<Rightarrow> string option \<Rightarrow>
     string option \<Rightarrow> string option \<Rightarrow> int \<Rightarrow> database \<times> user_session" where
  "createSession hashToken now db uid token fingerprint ip agent expires =
    (let row = \<lparr> s_id = length (user_sessions_table db),
                  s_user_id = uid,
                  s_device_fingerprint = or_null fingerprint,
                  s_token_hash = hashToken token,
                  s_ip_address = or_null ip,
                  s_user_agent = or_null agent,
                  s_is_active = True,
                  s_expires_at = expires,
                  s_invalidated_at = None,
                  s_invalidation_reason = None,
                  s_created_at = now \<rparr>
     in (db \<lparr> user_sessions_table := user_sessions_table db @ [row] \<rparr>, row))"

text \<open>
  The \<open>UPDATE\<close> of \<open>invalidateUserSessions\<close>: whether it touches a row, and what it
  makes of the table. The result of the function is the number of rows touched.
\<close>

definition invalidates :: "string \<Rightarrow> nat option \<Rightarrow> user_session \<Rightarrow> bool" where
  "invalidates uid exceptSessionId s =
    (s_user_id s = uid \<and> s_is_active s \<and>
     (case exceptSessionId of None \<Rightarrow> True | Some e \<Rightarrow> s_id s \<noteq> e))"

definition invalidateUserSessions ::
    "int \<Rightarrow> database \<Rightarrow> string \<Rightarrow> string \<Rightarrow> nat option \<Rightarrow> database \<times> nat" where
  "invalidateUserSessions now db uid reason exceptSessionId =
    (db \<lparr> user_sessions_table :=
            map (\<lambda>s. if invalidates uid exceptSessionId s
                      then s \<lparr> s_is_active := False, s_invalidated_at := Some now,
                              s_invalidation_reason := Some reason \<rparr>
                      else s)
                (user_sessions_table db) \<rparr>,
     length (filter (invalidates uid exceptSessionId) (user_sessions_table db)))"

text \<open>
  The join of \<open>findActiveSessionByToken\<close>: the first active, unexpired session with the
  hash of the token whose user exists, with that user's \<open>is_active\<close>.
\<close>

definition findActiveSessionByToken ::
    "(string \<Rightarrow> string) \<Rightarrow> int \<Rightarrow> database \<Rightarrow> string \<Rightarrow> (user_session \<times> bool) option" where
  "findActiveSessionByToken hashToken now db token =
    (case concat (map (\<lambda>s. map (\<lambda>u. (s, u_is_active u))
                              (filter (\<lambda>u. u_id u = s_user_id s) (users_table db)))
                      (filter (\<lambda>s. s_token_hash s = hashToken token \<and> s_is_active s \<and>
                                     s_expires_at s > now)
                              (user_sessions_table db))) of
       [] \<Rightarrow> None
     | x # _ \<Rightarrow> Some x)"

section \<open>devices.repository.js: registerDevice\<close>

text \<open>
  The upsert on \<open>(user_id, device_fingerprint)\<close>, with the columns the login fills
  (the browser and platform names are left out).
\<close>

definition registerDevice :: "int \<Rightarrow> database \<Rightarrow> string \<Rightarrow> string \<Rightarrow> database" where
  "registerDevice now db uid fingerprint =
    (if \<exists>d \<in> set (user_devices_table db).
           d_user_id d = uid \<and> d_device_fingerprint d = fingerprint
     then db \<lparr> user_devices_table :=
                 map (\<lambda>d. if d_user_id d = uid \<and> d_device_fingerprint d = fingerprint
                           then d \<lparr> d_last_used_at := now \<rparr> else d)
                     (user_devices_table db) \<rparr>
     else db \<lparr> user_devices_table := user_devices_table db @
                 [\<lparr> d_user_id = uid, d_device_fingerprint = fingerprint,
                    d_device_id = None, d_last_used_at = now \<rparr>] \<rparr>)"

section \<open>auth.service.js: login\<close>

text \<open>
  What the service takes from libraries and configuration: bcrypt's comparison, the
  hash of a token, the two \<open>jwt.sign\<close> calls (at a time, for a user), \<open>jwt.verify\<close>,
  and the match of \<open>authConfig.jwt.expiresIn\<close> against \<open>/^(\d+)([dhms])$/\<close>.
\<close>

datatype jwt_result = Verified string | TokenExpiredError | JsonWebTokenError | OtherJwtError

record auth_env =
  verifyPassword :: "string \<Rightarrow> string \<Rightarrow> bool"
  hashToken :: "string \<Rightarrow> string"
  generateAccessToken :: "int \<Rightarrow> user \<Rightarrow> string"
  generateRefreshToken :: "int \<Rightarrow> user \<Rightarrow> string"
  jwtVerify :: "int \<Rightarrow> string \<Rightarrow> jwt_result"
  expiresIn :: "(nat \<times> char) option"

definition getTokenExpirationDate :: "auth_env \<Rightarrow> int \<Rightarrow> int" where
  "getTokenExpirationDate env now =
    (case expiresIn env of
       None \<Rightarrow> now + 7 * 24 * 60 * 60 * 1000
     | Some (v, unit) \<Rightarrow>
         now + (if unit = CHR ''d'' then int v * 24 * 60 * 60 * 1000
                else if unit = CHR ''h'' then int v * 60 * 60 * 1000
                else if unit = CHR ''m'' then int v * 60 * 1000
                else if unit = CHR ''s'' then int v * 1000
                else 0))"

record login_result =
  lg_user :: user
  lg_token :: string
  lg_refreshToken :: string

text \<open>
  \<open>login\<close> sends its statements one by one through the pool, outside any transaction:
  what a statement has written stays written when a later one fails, and the statements
  of another request may come in between. The statements are numbered, and whether one
  fails is a parameter: \<open>fails q\<close> is the message with which statement \<open>q\<close> throws, if
  it does (for the two inserts into \<open>activities\<close>, an address that is not an \<open>INET\<close>).
\<close>

datatype login_statement =
    SelectUser
  | InsertLoginFailed
  | InvalidateSessions
  | InsertSession
  | UpsertDevice
  | UpdateLastLogin
  | InsertLogin


text \<open>The call of \<open>invalidateUserSessions\<close> in \<open>login\<close>; \<open>Some\<close> is the error thrown.\<close>

definition login_invalidate ::
    "(login_statement \<Rightarrow> string option) \<Rightarrow> int \<Rightarrow> database \<Rightarrow> user
      \<Rightarrow> database \<times> string option" where
  "login_invalidate fails now db usr =
    (case fails InvalidateSessions of
       Some msg \<Rightarrow> (db, Some msg)
     | None \<Rightarrow> (fst (invalidateUserSessions now db (u_id usr) ''new_login'' None), None))"

text \<open>
  The rest of \<open>login\<close>: the new session, the device, the time of the last login and
  the audit row. The fingerprint is \<open>None\<close> when the caller gives none.
\<close>

definition login_create ::
    "auth_env \<Rightarrow> (login_statement \<Rightarrow> string option) \<Rightarrow> int \<Rightarrow> database \<Rightarrow> user \<Rightarrow> string
      \<Rightarrow> string \<Rightarrow> string option \<Rightarrow> string option \<Rightarrow> string option
      \<Rightarrow> database \<times> (string + login_result)" where
  "login_create env fails now db usr token refreshToken ipAddress userAgent deviceFingerprint =
    (case fails InsertSession of
       Some msg \<Rightarrow> (db, Inl msg)
     | None \<Rightarrow>
        (let db2 = fst (createSession (hashToken env) now db (u_id usr) token
                          deviceFingerprint ipAddress userAgent
                          (getTokenExpirationDate env now));
             device = or_null deviceFingerprint
         in case (case device of None \<Rightarrow> None | Some fp \<Rightarrow> fails UpsertDevice) of
              Some msg \<Rightarrow> (db2, Inl msg)
            | None \<Rightarrow>
              (let db3 = (case device of
                            None \<Rightarrow> db2
                          | Some fp \<Rightarrow> registerDevice now db2 (u_id usr) fp)
               in case fails UpdateLastLogin of
                    Some msg \<Rightarrow> (db3, Inl msg)
                  | None \<Rightarrow>
                     (let db4 = db3 \<lparr> users_table :=
                                  map (\<lambda>u. if u_id u = u_id usr
                                            then u \<lparr> u_last_login_at := Some now \<rparr> else u)
                                      (users_table db3) \<rparr>
                      in case fails InsertLogin of
                           Some msg \<Rightarrow> (db4, Inl msg)
                         | None \<Rightarrow>
                            (log_activity \<lparr> act_user_id = u_id usr, act_action = ''login'',
                                            act_entity_type = ''auth'',
                                            act_entity_id = Some (UserRef (u_id usr)) \<rparr> db4,
                             Inr \<lparr> lg_user = usr, lg_token = token,
                                   lg_refreshToken = refreshToken \<rparr>)))))"


section \<open>auth.middleware.js: authenticate\<close>

datatype auth_outcome =
    Unauthorized string "string option"
  | InternalServerError
  | Next user "nat option"

text \<open>
  \<open>sessionError\<close> is the error code with which the query on \<open>user_sessions\<close> throws, if
  it throws (\<open>42P01\<close> when the table does not exist); \<open>Next\<close> carries \<open>req.user\<close> and
  \<open>req.sessionId\<close>.
\<close>

definition authenticate ::
    "auth_env \<Rightarrow> string option \<Rightarrow> int \<Rightarrow> database \<Rightarrow> string option \<Rightarrow> auth_outcome" where
  "authenticate env sessionError now db authHeader =
    (case authHeader of
       None \<Rightarrow> Unauthorized ''No token provided'' None
     | Some header \<Rightarrow>
        (if header = [] \<or> take 7 header \<noteq> ''Bearer '' then
           Unauthorized ''No token provided'' None
         else
           (let token = drop 7 header in
            case jwtVerify env now token of
              TokenExpiredError \<Rightarrow> Unauthorized ''Token expired'' (Some ''TOKEN_EXPIRED'')
            | JsonWebTokenError \<Rightarrow> Unauthorized ''Invalid token'' (Some ''INVALID_TOKEN'')
            | OtherJwtError \<Rightarrow> InternalServerError
            | Verified userId \<Rightarrow>
               (let fetch_user = (\<lambda>sessionId.
                      case filter (\<lambda>u. u_id u = userId \<and> u_is_active u) (users_table db) of
                        [] \<Rightarrow> Unauthorized ''User not found or inactive'' None
                      | usr # _ \<Rightarrow> Next usr sessionId)
                in case sessionError of
                     Some code \<Rightarrow> fetch_user None
                   | None \<Rightarrow>
                      (case findActiveSessionByToken (hashToken env) now db token of
                         None \<Rightarrow> Unauthorized ''Session expired. Please log in again.''
                                   (Some ''SESSION_INVALIDATED'')
                       | Some (session, user_is_active) \<Rightarrow>
                           if \<not> user_is_active then
                             Unauthorized ''Account deactivated. Please contact administrator.''
                               (Some ''ACCOUNT_DEACTIVATED'')
                           else fetch_user (Some (s_id session)))))))"

section \<open>geofencing.js\<close>

text \<open>\<open>Math.atan2\<close> on the reals.\<close>

definition atan2 :: "real \<Rightarrow> real \<Rightarrow> real" where
  "atan2 y x =
    (if x > 0 then arctan (y / x)
     else if x < 0 \<and> y \<ge> 0 then arctan (y / x) + pi
     else if x < 0 then arctan (y / x) - pi
     else if y > 0 then pi / 2
     else if y < 0 then - pi / 2
     else 0)"

definition haversineDistance :: "real \<Rightarrow> real \<Rightarrow> real \<Rightarrow> real \<Rightarrow> real" where
  "haversineDistance lat1 lon1 lat2 lon2 =
    (let R = 6371000;
         phi1 = lat1 * pi / 180;
         phi2 = lat2 * pi / 180;
         dphi = (lat2 - lat1) * pi / 180;
         dlambda = (lon2 - lon1) * pi / 180;
         a = sin (dphi / 2) * sin (dphi / 2) +
             cos phi1 * cos phi2 * sin (dlambda / 2) * sin (dlambda / 2);
         c = 2 * atan2 (sqrt a) (sqrt (1 - a))
     in R * c)"

record geofence_result =
  isWithinGeofence :: bool
  distance :: "int option"
  maxRadius :: "int option"
  gf_error :: "string option"
  gf_warning :: "string option"
  facilityName :: "string option"
  gf_method :: "string option"

text \<open>
  What the first query meets: PostGIS with its \<open>ST_DistanceSphere\<close> (longitude and
  latitude of the first point, then of the second), an error that the \<open>catch\<close> takes
  for a PostGIS error, or any other error, which is thrown on.
\<close>

datatype postgis =
    PostgisDistance "real \<Rightarrow> real \<Rightarrow> real \<Rightarrow> real \<Rightarrow> real"
  | PostgisUnavailable
  | QueryError string

text \<open>\<open>COALESCE(geofence_radius, 100)\<close>.\<close>

definition radius_of :: "facility \<Rightarrow> int" where
  "radius_of f = (case f_geofence_radius f of None \<Rightarrow> 100 | Some r \<Rightarrow> r)"

text \<open>
  The sources hold two copies of \<open>geofencing.js\<close>. They differ in what is returned for
  a facility without coordinates, so that result is a parameter here, applied to the
  radius of the facility.
\<close>

definition blocked_unconfigured :: "int \<Rightarrow> geofence_result" where
  "blocked_unconfigured radius =
    \<lparr> isWithinGeofence = False, distance = None, maxRadius = Some radius,
      gf_error = Some ''Facility location not configured. Please contact your administrator.'',
      gf_warning = None, facilityName = None, gf_method = None \<rparr>"

definition skipped_unconfigured :: "int \<Rightarrow> geofence_result" where
  "skipped_unconfigured radius =
    \<lparr> isWithinGeofence = True, distance = None, maxRadius = Some radius,
      gf_error = None,
      gf_warning = Some ''Facility coordinates not configured, geofencing skipped'',
      facilityName = None, gf_method = None \<rparr>"

text \<open>
  The second query and what follows it, the same after an empty first result and in the
  \<open>catch\<close>. The columns are \<open>DECIMAL\<close> and arrive as strings, so \<open>!facility.latitude\<close>
  holds for \<open>NULL\<close> only.
\<close>

definition haversine_fallback ::
    "(int \<Rightarrow> geofence_result) \<Rightarrow> database \<Rightarrow> string \<Rightarrow> real \<Rightarrow> real \<Rightarrow> geofence_result" where
  "haversine_fallback unconfigured db facilityId userLatitude userLongitude =
    (case filter (\<lambda>f. f_id f = facilityId \<and> f_is_active f) (facilities_table db) of
       [] \<Rightarrow> \<lparr> isWithinGeofence = False, distance = None, maxRadius = None,
               gf_error = Some ''Facility not found or inactive'',
               gf_warning = None, facilityName = None, gf_method = None \<rparr>
     | facility # _ \<Rightarrow>
        (case (f_latitude facility, f_longitude facility) of
           (Some lat, Some lon) \<Rightarrow>
             (let d = haversineDistance lat lon userLatitude userLongitude in
              \<lparr> isWithinGeofence = (d \<le> real_of_int (radius_of facility)),
                distance = Some (round d),
                maxRadius = Some (radius_of facility),
                gf_error = None, gf_warning = None, facilityName = None,
                gf_method = Some ''haversine'' \<rparr>)
         | _ \<Rightarrow> unconfigured (radius_of facility)))"

text \<open>The result is \<open>Inl\<close> when the function throws.\<close>

definition validateGeofence_with ::
    "(int \<Rightarrow> geofence_result) \<Rightarrow> postgis \<Rightarrow> database \<Rightarrow> string \<Rightarrow> real \<Rightarrow> real
      \<Rightarrow> string + geofence_result" where
  "validateGeofence_with unconfigured pg db facilityId userLatitude userLongitude =
    (case pg of
       PostgisDistance st_distanceSphere \<Rightarrow>
        (case List.map_filter
                (\<lambda>f. case (f_latitude f, f_longitude f) of
                        (Some lat, Some lon) \<Rightarrow>
                          if f_id f = facilityId \<and> f_is_active f
                          then Some (f, st_distanceSphere lon lat userLongitude userLatitude)
                          else None
                      | _ \<Rightarrow> None)
                (facilities_table db) of
           [] \<Rightarrow> Inr (haversine_fallback unconfigured db facilityId userLatitude userLongitude)
         | (facility, distance_meters) # _ \<Rightarrow>
             (let d = round distance_meters in
              Inr \<lparr> isWithinGeofence = (d \<le> radius_of facility),
                    distance = Some d,
                    maxRadius = Some (radius_of facility),
                    gf_error = None, gf_warning = None,
                    facilityName = Some (f_name facility),
                    gf_method = Some ''postgis'' \<rparr>))
     | PostgisUnavailable \<Rightarrow>
         Inr (haversine_fallback unconfigured db facilityId userLatitude userLongitude)
     | QueryError e \<Rightarrow> Inl e)"

text \<open>The copy that blocks, and the copy that lets the clock-in pass.\<close>

definition validateGeofence ::
    "postgis \<Rightarrow> database \<Rightarrow> string \<Rightarrow> real \<Rightarrow> real \<Rightarrow> string + geofence_result" where
  "validateGeofence = validateGeofence_with blocked_unconfigured"

definition validateGeofence_skipping ::
    "postgis \<Rightarrow> database \<Rightarrow> string \<Rightarrow> real \<Rightarrow> real \<Rightarrow> string + geofence_result" where
  "validateGeofence_skipping = validateGeofence_with skipped_unconfigured"

section \<open>validators.js: validateGpsCoordinates\<close>

text \<open>
  A coordinate of a request body: a finite number, NaN, an infinity, or a value that
  is not of type number.
\<close>

datatype jsnum = Num real | NaN | Infinity | NonNumber

record coord_validation =
  cv_isValid :: bool
  cv_error :: "string option"
  cv_warning :: "string option"

text \<open>
  \<open>getDecimalPlaces\<close>: the digits after the point of \<open>num.toFixed(10)\<close>, without the
  trailing zeros. \<open>significant_decimals k digits\<close> counts them in the last \<open>k\<close>
  digits of the number \<open>digits\<close>.
\<close>

fun significant_decimals :: "nat \<Rightarrow> nat \<Rightarrow> nat" where
  "significant_decimals 0 digits = 0"
| "significant_decimals (Suc k) digits =
    (if digits mod 10 = 0 then significant_decimals k (digits div 10) else Suc k)"

definition getDecimalPlaces :: "real \<Rightarrow> nat" where
  "getDecimalPlaces num =
    significant_decimals 10 (nat \<lfloor>\<bar>num\<bar> * 10 ^ 10 + 1 / 2\<rfloor> mod 10 ^ 10)"

definition validateGpsCoordinates :: "jsnum jsopt \<Rightarrow> jsnum jsopt \<Rightarrow> coord_validation" where
  "validateGpsCoordinates lat lon =
    (case (lat, lon) of
       (Val la, Val lo) \<Rightarrow>
        (case (la, lo) of
           (Num x, Num y) \<Rightarrow>
             (if x < -90 \<or> x > 90 then
                \<lparr> cv_isValid = False,
                  cv_error = Some ''Latitude must be between -90 and 90 degrees'',
                  cv_warning = None \<rparr>
              else if y < -180 \<or> y > 180 then
                \<lparr> cv_isValid = False,
                  cv_error = Some ''Longitude must be between -180 and 180 degrees'',
                  cv_warning = None \<rparr>
              else if \<bar>x\<bar> < 1 / 100 \<and> \<bar>y\<bar> < 1 / 100 then
                \<lparr> cv_isValid = False,
                  cv_error = Some ''Invalid GPS coordinates detected (Null Island). Please enable GPS and try again.'',
                  cv_warning = None \<rparr>
              else if getDecimalPlaces x < 3 \<and> getDecimalPlaces y < 3 \<and> x \<noteq> 0 \<and> y \<noteq> 0 then
                \<lparr> cv_isValid = True, cv_error = None,
                  cv_warning = Some ''GPS coordinates have low precision. Please ensure GPS is enabled.'' \<rparr>
              else \<lparr> cv_isValid = True, cv_error = None, cv_warning = None \<rparr>)
         | _ \<Rightarrow>
             (if la = NonNumber \<or> lo = NonNumber then
                \<lparr> cv_isValid = False,
                  cv_error = Some ''GPS coordinates must be valid numbers'',
                  cv_warning = None \<rparr>
              else
                \<lparr> cv_isValid = False,
                  cv_error = Some ''GPS coordinates must be finite numbers'',
                  cv_warning = None \<rparr>))
     | _ \<Rightarrow> \<lparr> cv_isValid = False,
              cv_error = Some ''GPS coordinates are required for clock-in'',
              cv_warning = None \<rparr>)"

section \<open>spoofingDetection.js\<close>

definition MAX_SPEED_KMH :: real where
  "MAX_SPEED_KMH = 150"

definition MIN_SUSPICIOUS_ACCURACY :: real where
  "MIN_SUSPICIOUS_ACCURACY = 1"

definition MAX_ACCEPTABLE_ACCURACY :: real where
  "MAX_ACCEPTABLE_ACCURACY = 500"

record location =
  loc_latitude :: real
  loc_longitude :: real
  loc_timestamp :: int

record speed_check =
  sc_suspicious :: bool
  sc_speed :: "int option"
  sc_reason :: "spoof_message option"

text \<open>
  The two locations are objects with numeric coordinates and timestamps that parse, as
  \<open>runSpoofingChecks\<close> builds them; \<open>None\<close> is a missing object. \<open>!x\<close> on a coordinate
  holds for \<open>0\<close>. The rounded distance and duration of the result are left out.
\<close>

definition detectImpossibleSpeed :: "location option \<Rightarrow> location option \<Rightarrow> speed_check" where
  "detectImpossibleSpeed lastLocation currentLocation =
    (case (lastLocation, currentLocation) of
       (Some l, Some c) \<Rightarrow>
        (if loc_latitude l = 0 \<or> loc_longitude l = 0 \<or>
            loc_latitude c = 0 \<or> loc_longitude c = 0 then
           \<lparr> sc_suspicious = False, sc_speed = None, sc_reason = None \<rparr>
         else
           (let timeDiffHours = real_of_int (loc_timestamp c - loc_timestamp l) / (1000 * 60 * 60) in
            if timeDiffHours \<le> 0 then
              \<lparr> sc_suspicious = True, sc_speed = None, sc_reason = Some InvalidTimeSequence \<rparr>
            else
              (let distanceMeters = haversineDistance (loc_latitude l) (loc_longitude l)
                                      (loc_latitude c) (loc_longitude c);
                   distanceKm = distanceMeters / 1000;
                   speedKmh = distanceKm / timeDiffHours
               in if speedKmh > MAX_SPEED_KMH then
                    \<lparr> sc_suspicious = True, sc_speed = Some (round speedKmh),
                      sc_reason = Some (TravelSpeedExceeds (round speedKmh)) \<rparr>
                  else
                    \<lparr> sc_suspicious = False, sc_speed = Some (round speedKmh),
                      sc_reason = None \<rparr>)))
     | _ \<Rightarrow> \<lparr> sc_suspicious = False, sc_speed = None, sc_reason = None \<rparr>)"

definition detectMockLocation :: "bool jsopt \<Rightarrow> spoof_message option" where
  "detectMockLocation isMocked =
    (if isMocked = Val True then Some MockLocationDetected else None)"

record accuracy_check =
  ac_valid :: bool
  ac_warning :: "spoof_message option"
  ac_error :: "spoof_message option"

definition validateGpsAccuracy :: "real jsopt \<Rightarrow> accuracy_check" where
  "validateGpsAccuracy accuracy =
    (case accuracy of
       Val a \<Rightarrow>
        (if a > MAX_ACCEPTABLE_ACCURACY then
           \<lparr> ac_valid = False, ac_warning = None, ac_error = Some (GpsAccuracyTooLow (round a)) \<rparr>
         else if a < MIN_SUSPICIOUS_ACCURACY then
           \<lparr> ac_valid = True, ac_warning = Some (UnusuallyPreciseReading a), ac_error = None \<rparr>
         else \<lparr> ac_valid = True, ac_warning = None, ac_error = None \<rparr>)
     | _ \<Rightarrow> \<lparr> ac_valid = True, ac_warning = None, ac_error = None \<rparr>)"

text \<open>
  \<open>ORDER BY key DESC LIMIT 1\<close>: the first row among those with the greatest key.
\<close>

fun latest_by :: "('a \<Rightarrow> int) \<Rightarrow> 'a list \<Rightarrow> 'a option" where
  "latest_by key [] = None"
| "latest_by key (x # xs) =
    (case latest_by key xs of
       None \<Rightarrow> Some x
     | Some y \<Rightarrow> if key y > key x then Some y else Some x)"

text \<open>Column \<open>clock_in_time\<close> is \<open>NOT NULL\<close>: every row has an instant there.\<close>

definition clock_in_ms :: "attendance \<Rightarrow> int" where
  "clock_in_ms row = (case clock_in_time row of Val (At t) \<Rightarrow> t | _ \<Rightarrow> 0)"

definition getLastAttendanceWithLocation :: "database \<Rightarrow> string \<Rightarrow> location option" where
  "getLastAttendanceWithLocation db userId =
    latest_by loc_timestamp
      (List.map_filter
         (\<lambda>row. case (clock_in_latitude row, clock_in_longitude row) of
                  (Val lat, Val lon) \<Rightarrow>
                    if user_id row = Val userId
                    then Some \<lparr> loc_latitude = lat, loc_longitude = lon,
                                loc_timestamp = clock_in_ms row \<rparr>
                    else None
                | _ \<Rightarrow> None)
         (attendance_table db))"

record location_data =
  ld_latitude :: "real jsopt"
  ld_longitude :: "real jsopt"
  ld_accuracy :: "real jsopt"
  ld_is_mocked :: "bool jsopt"

record spoofing_result =
  passed :: bool
  sp_errors :: "spoof_message list"
  sp_warnings :: "spoof_message list"
  flags :: "string list"

text \<open>
  The three steps of \<open>runSpoofingChecks\<close>, each taking the result so far. The last one
  also writes the audit row of \<open>logSuspiciousActivity\<close>. A reason is pushed where
  the check gives one, which it does whenever it fails. The user id is a non-empty
  string when the caller is authenticated; an empty one is falsy.
\<close>

fun message_list :: "spoof_message option \<Rightarrow> spoof_message list" where
  "message_list (Some m) = [m]"
| "message_list None = []"

definition check_mock :: "location_data \<Rightarrow> spoofing_result \<Rightarrow> spoofing_result" where
  "check_mock locationData results =
    (case detectMockLocation (ld_is_mocked locationData) of
       Some reason \<Rightarrow> results \<lparr> passed := False,
                                sp_errors := sp_errors results @ [reason],
                                flags := flags results @ [''mock_location''] \<rparr>
     | None \<Rightarrow> results)"

definition check_accuracy :: "location_data \<Rightarrow> spoofing_result \<Rightarrow> spoofing_result" where
  "check_accuracy locationData results =
    (let accuracyCheck = validateGpsAccuracy (ld_accuracy locationData);
         r1 = (if \<not> ac_valid accuracyCheck
               then results \<lparr> passed := False,
                              sp_errors := sp_errors results @ message_list (ac_error accuracyCheck),
                              flags := flags results @ [''low_accuracy''] \<rparr>
               else results)
     in case ac_warning accuracyCheck of
          Some w \<Rightarrow> r1 \<lparr> sp_warnings := sp_warnings r1 @ [w],
                         flags := flags r1 @ [''suspicious_accuracy''] \<rparr>
        | None \<Rightarrow> r1)"

definition check_speed ::
    "int \<Rightarrow> database \<Rightarrow> location_data \<Rightarrow> string \<Rightarrow> spoofing_result
      \<Rightarrow> database \<times> spoofing_result" where
  "check_speed now db locationData userId results =
    (if userId \<noteq> [] \<and> truthy_real (ld_latitude locationData) \<and>
        truthy_real (ld_longitude locationData) then
       (case (getLastAttendanceWithLocation db userId,
              ld_latitude locationData, ld_longitude locationData) of
          (Some lastAttendance, Val lat, Val lon) \<Rightarrow>
            (let speedCheck = detectImpossibleSpeed (Some lastAttendance)
                                (Some \<lparr> loc_latitude = lat, loc_longitude = lon,
                                        loc_timestamp = now \<rparr>)
             in if sc_suspicious speedCheck then
                  (log_activity \<lparr> act_user_id = userId,
                                  act_action = ''suspicious_location'',
                                  act_entity_type = ''attendance'',
                                  act_entity_id = None \<rparr> db,
                   results \<lparr> passed := False,
                             sp_errors := sp_errors results @ message_list (sc_reason speedCheck),
                             flags := flags results @ [''impossible_speed''] \<rparr>)
                else (db, results))
        | _ \<Rightarrow> (db, results))
     else (db, results))"

definition runSpoofingChecks ::
    "int \<Rightarrow> database \<Rightarrow> location_data \<Rightarrow> string \<Rightarrow> database \<times> spoofing_result" where
  "runSpoofingChecks now db locationData userId =
    check_speed now db locationData userId
      (check_accuracy locationData
        (check_mock locationData
          \<lparr> passed = True, sp_errors = [], sp_warnings = [], flags = [] \<rparr>))"

section \<open>attendance.repository.js: findActiveByUserId, clockIn, clockOut\<close>

fun sql_is_null :: "'a jsopt \<Rightarrow> bool" where
  "sql_is_null (Val _) = False"
| "sql_is_null _ = True"

definition findActiveByUserId :: "database \<Rightarrow> string \<Rightarrow> attendance option" where
  "findActiveByUserId db userId =
    latest_by clock_in_ms
      (filter (\<lambda>row. user_id row = Val userId \<and> status row = Val ''active'' \<and>
                       sql_is_null (clock_out_time row))
              (attendance_table db))"

text \<open>
  \<open>x || null\<close> on a number that goes to a column: \<open>0\<close> is stored as \<open>NULL\<close>.
\<close>

definition real_or_null :: "real jsopt \<Rightarrow> real jsopt" where
  "real_or_null v = js_or truthy_real v Null"

text \<open>
  The \<open>INSERT\<close> of the repository's \<open>clockIn\<close>. The columns that the statement
  leaves out take their defaults. As in \<open>bulkSync\<close>, \<open>reject\<close> stands for the
  constraints of the table; a refused row makes the function throw.
\<close>

definition repository_clockIn ::
    "(attendance \<Rightarrow> string option) \<Rightarrow> int \<Rightarrow> database \<Rightarrow> attendance
      \<Rightarrow> string + (database \<times> attendance)" where
  "repository_clockIn reject now db attendanceData =
    (let row = attendanceData
          \<lparr> rec_id := Val (length (attendance_table db)),
            user_id := to_sql (user_id attendanceData),
            facility_id := to_sql (facility_id attendanceData),
            clock_in_time := to_sql (clock_in_time attendanceData),
            clock_out_time := Null,
            clock_in_latitude := real_or_null (clock_in_latitude attendanceData),
            clock_in_longitude := real_or_null (clock_in_longitude attendanceData),
            clock_out_latitude := Null,
            clock_out_longitude := Null,
            clock_in_accuracy_meters := real_or_null (clock_in_accuracy_meters attendanceData),
            clock_in_distance_meters := real_or_null (clock_in_distance_meters attendanceData),
            clock_out_accuracy_meters := Null,
            clock_out_distance_meters := Null,
            device_fingerprint := js_or truthy_str (device_fingerprint attendanceData) Null,
            validation_status :=
              js_or truthy_str (validation_status attendanceData) (Val ''verified''),
            status := Val ''active'',
            rec_notes := Null,
            synced := (if synced attendanceData \<noteq> Undefined
                       then synced attendanceData else Val True),
            client_timestamp :=
              to_sql (js_or truthy_val (client_timestamp attendanceData)
                        (clock_in_time attendanceData)),
            server_timestamp := Val (At now),
            device_id := to_sql (device_id attendanceData),
            sync_version := Val 1,
            conflict_resolution_strategy := Val ''server_wins'',
            metadata := Val (spread (metadata attendanceData)),
            created_at := Val (At now) \<rparr>
     in if clock_in_time row = Val InvalidDate \<or> client_timestamp row = Val InvalidDate then
          Inl ''invalid input syntax for type timestamp''
        else case reject row of
               Some msg \<Rightarrow> Inl msg
             | None \<Rightarrow> Inr (db \<lparr> attendance_table := attendance_table db @ [row] \<rparr>, row))"

record clock_out_info =
  coi_clock_out_time :: "jsdate jsopt"
  coi_latitude :: "real jsopt"
  coi_longitude :: "real jsopt"
  coi_accuracy_meters :: "real jsopt"
  coi_distance_meters :: "real jsopt"
  coi_notes :: "string jsopt"
  coi_metadata :: jsobject

definition repository_clockOut ::
    "(attendance \<Rightarrow> string option) \<Rightarrow> database \<Rightarrow> attendance \<Rightarrow> clock_out_info
      \<Rightarrow> string + (database \<times> attendance)" where
  "repository_clockOut reject db active info =
    (let row = active
          \<lparr> clock_out_time := to_sql (coi_clock_out_time info),
            clock_out_latitude := real_or_null (coi_latitude info),
            clock_out_longitude := real_or_null (coi_longitude info),
            clock_out_accuracy_meters := real_or_null (coi_accuracy_meters info),
            clock_out_distance_meters := real_or_null (coi_distance_meters info),
            status := Val ''completed'',
            rec_notes := js_or truthy_str (coi_notes info) (rec_notes active),
            metadata := Val (coi_metadata info) \<rparr>
     in if clock_out_time row = Val InvalidDate then
          Inl ''invalid input syntax for type timestamp''
        else case reject row of
               Some msg \<Rightarrow> Inl msg
             | None \<Rightarrow>
                 Inr (db \<lparr> attendance_table := replace_row row (attendance_table db) \<rparr>, row))"

section \<open>attendance.service.js: clockIn, clockOut\<close>

text \<open>The errors that the two operations throw.\<close>

datatype clock_error =
    AlreadyClockedIn
  | NotClockedIn
  | FacilityRequired
  | CoordinateError string
  | AccuracyRequired
  | AccuracyTooLow int
  | SpoofingRejected spoof_message
  | LocationVerificationFailed
  | GeofenceError string
  | OutsideGeofence "int option" string "int option"
  | Thrown string

record clock_in_data =
  ci_facility_id :: "string jsopt"
  ci_metadata :: "jsobject jsopt"
  ci_synced :: "bool jsopt"
  ci_device_fingerprint :: "string jsopt"
  ci_latitude :: "jsnum jsopt"
  ci_longitude :: "jsnum jsopt"
  ci_accuracy :: "real jsopt"
  ci_is_mocked :: "bool jsopt"
  ci_clock_in_time :: "jsdate jsopt"
  ci_device_id :: "string jsopt"
  ci_client_timestamp :: "jsdate jsopt"

record clock_out_data =
  co_metadata :: "jsobject jsopt"
  co_synced :: "bool jsopt"
  co_latitude :: "jsnum jsopt"
  co_longitude :: "jsnum jsopt"
  co_accuracy :: "real jsopt"
  co_is_mocked :: "bool jsopt"
  co_clock_out_time :: "jsdate jsopt"
  co_notes :: "string jsopt"

text \<open>
  A coordinate of the body on its way to the row. The online branch has checked it to
  be a number; the offline branch has not, and a value that is no finite number is
  refused by the \<open>DECIMAL\<close> column (\<open>None\<close>), except NaN, which is falsy and becomes
  \<open>NULL\<close>.
\<close>

fun coordinate_param :: "jsnum jsopt \<Rightarrow> real jsopt option" where
  "coordinate_param (Val (Num x)) = Some (Val x)"
| "coordinate_param (Val NaN) = Some Null"
| "coordinate_param (Val Infinity) = None"
| "coordinate_param (Val NonNumber) = None"
| "coordinate_param Undefined = Some Undefined"
| "coordinate_param Null = Some Null"

definition json_of_int_option :: "int option \<Rightarrow> json" where
  "json_of_int_option v = (case v of None \<Rightarrow> JNull | Some n \<Rightarrow> JNum (real_of_int n))"

definition real_of_int_option :: "int option \<Rightarrow> real jsopt" where
  "real_of_int_option v = (case v of None \<Rightarrow> Null | Some n \<Rightarrow> Val (real_of_int n))"

text \<open>
  What the online branch of a clock-in or clock-out hands on when every check has
  passed: whether a warning was raised, the accuracy, the result of the geofence, the
  warnings and flags of the spoofing checks, the warning about the coordinates.
\<close>

record spatial_checks =
  sc_accuracy :: real
  sc_coordinate_warning :: "string option"
  sc_spoofing :: spoofing_result
  sc_geofence :: geofence_result

text \<open>
  The checks of the online branch, the same in \<open>clockIn\<close> and \<open>clockOut\<close>: coordinates,
  accuracy, spoofing, geofence, in this order, stopping at the first that fails.
  \<open>geofence\<close> is \<open>validateGeofence\<close> of the copy of \<open>geofencing.js\<close> in use. The
  database comes back too: a refused speed check has written its audit row.
\<close>

definition online_checks ::
    "(database \<Rightarrow> string \<Rightarrow> real \<Rightarrow> real \<Rightarrow> string + geofence_result) \<Rightarrow> int \<Rightarrow> database
      \<Rightarrow> string \<Rightarrow> string \<Rightarrow> jsnum jsopt \<Rightarrow> jsnum jsopt \<Rightarrow> real jsopt \<Rightarrow> bool jsopt
      \<Rightarrow> database \<times> (clock_error + spatial_checks)" where
  "online_checks geofence now db userId facilityId latitude longitude accuracy is_mocked =
    (let coordValidation = validateGpsCoordinates latitude longitude in
     if \<not> cv_isValid coordValidation then
       (db, Inl (CoordinateError (case cv_error coordValidation of Some e \<Rightarrow> e | None \<Rightarrow> [])))
     else
       (case (latitude, longitude, accuracy) of
          (Val (Num lat), Val (Num lon), Val acc) \<Rightarrow>
            (if acc > MAX_ACCEPTABLE_ACCURACY then (db, Inl (AccuracyTooLow (round acc)))
             else
               (let checked = runSpoofingChecks now db
                                \<lparr> ld_latitude = Val lat, ld_longitude = Val lon,
                                  ld_accuracy = Val acc, ld_is_mocked = is_mocked \<rparr> userId;
                    db1 = fst checked;
                    spoofingResult = snd checked
                in if \<not> passed spoofingResult then
                     (db1, Inl (case sp_errors spoofingResult of
                                  e # _ \<Rightarrow> SpoofingRejected e
                                | [] \<Rightarrow> LocationVerificationFailed))
                   else
                     (case geofence db1 facilityId lat lon of
                        Inl e \<Rightarrow> (db1, Inl (Thrown e))
                      | Inr geofenceResult \<Rightarrow>
                          (case or_null (gf_error geofenceResult) of
                             Some e \<Rightarrow> (db1, Inl (GeofenceError e))
                           | None \<Rightarrow>
                               if \<not> isWithinGeofence geofenceResult then
                                 (db1, Inl (OutsideGeofence (distance geofenceResult)
                                        (case or_null (facilityName geofenceResult) of
                                           Some n \<Rightarrow> n | None \<Rightarrow> ''facility'')
                                        (maxRadius geofenceResult)))
                               else
                                 (db1, Inr \<lparr> sc_accuracy = acc,
                                              sc_coordinate_warning =
                                                or_null (cv_warning coordValidation),
                                              sc_spoofing = spoofingResult,
                                              sc_geofence = geofenceResult \<rparr>)))))
        | _ \<Rightarrow> (db, Inl AccuracyRequired)))"

text \<open>
  \<open>clockIn\<close>. The result carries the database: it is the given one unless the record was
  written or a speed check was refused.
\<close>

definition clockIn ::
    "(database \<Rightarrow> string \<Rightarrow> real \<Rightarrow> real \<Rightarrow> string + geofence_result) \<Rightarrow>
     (attendance \<Rightarrow> string option) \<Rightarrow> int \<Rightarrow> database \<Rightarrow> clock_in_data \<Rightarrow> user
      \<Rightarrow> database \<times> (clock_error + attendance)" where
  "clockIn geofence reject now db clockInData usr =
    (case findActiveByUserId db (u_id usr) of
       Some activeAttendance \<Rightarrow> (db, Inl AlreadyClockedIn)
     | None \<Rightarrow>
        (case (if truthy_str (ci_facility_id clockInData)
               then (case ci_facility_id clockInData of Val f \<Rightarrow> Some f | _ \<Rightarrow> None)
               else or_null (u_facility_id usr)) of
           None \<Rightarrow> (db, Inl FacilityRequired)
         | Some facilityId \<Rightarrow>
            (let metadata0 = (spread (ci_metadata clockInData))
                   (''clock_in_method'' \<mapsto>
                      JStr (if ci_synced clockInData = Val False then ''offline'' else ''online''));
                 checks =
                   (if ci_synced clockInData \<noteq> Val False then
                      (case online_checks geofence now db (u_id usr) facilityId
                              (ci_latitude clockInData) (ci_longitude clockInData)
                              (ci_accuracy clockInData) (ci_is_mocked clockInData) of
                         (db1, Inl e) \<Rightarrow> (db1, Inl e)
                       | (db1, Inr c) \<Rightarrow>
                          (let m1 = (case sc_coordinate_warning c of
                                       Some w \<Rightarrow> metadata0(''coordinate_warning'' \<mapsto> JStr w)
                                     | None \<Rightarrow> metadata0);
                               m2 = (if sp_warnings (sc_spoofing c) \<noteq> [] then
                                       m1(''spoofing_warnings'' \<mapsto>
                                            JMessages (sp_warnings (sc_spoofing c)),
                                          ''spoofing_flags'' \<mapsto> JList (flags (sc_spoofing c)))
                                     else m1);
                               m3 = m2(''distance_from_facility'' \<mapsto>
                                         json_of_int_option (distance (sc_geofence c)),
                                       ''geofence_radius'' \<mapsto>
                                         json_of_int_option (maxRadius (sc_geofence c)),
                                       ''gps_accuracy'' \<mapsto> JNum (sc_accuracy c));
                               m4 = (case or_null (gf_warning (sc_geofence c)) of
                                       Some w \<Rightarrow> m3(''geofence_warning'' \<mapsto> JStr w)
                                     | None \<Rightarrow> m3)
                           in (db1, Inr (if sc_coordinate_warning c = None \<and>
                                            sp_warnings (sc_spoofing c) = []
                                         then ''verified'' else ''flagged'',
                                         Val (sc_accuracy c),
                                         real_of_int_option (distance (sc_geofence c)),
                                         m4))))
                    else (db, Inr (''unverified'', Null, Null, metadata0)))
             in case checks of
                  (db1, Inl e) \<Rightarrow> (db1, Inl e)
                | (db1, Inr (validationStatus, clockInAccuracyMeters,
                             clockInDistanceMeters, metadata4)) \<Rightarrow>
                   (case (coordinate_param (ci_latitude clockInData),
                          coordinate_param (ci_longitude clockInData)) of
                      (Some latitude, Some longitude) \<Rightarrow>
                        (case repository_clockIn reject now db1
                                (blank_record
                                   \<lparr> user_id := Val (u_id usr),
                                     facility_id := Val facilityId,
                                     clock_in_time :=
                                       js_or truthy_val (ci_clock_in_time clockInData)
                                         (Val (At now)),
                                     clock_in_latitude := latitude,
                                     clock_in_longitude := longitude,
                                     clock_in_accuracy_meters := clockInAccuracyMeters,
                                     clock_in_distance_meters := clockInDistanceMeters,
                                     device_fingerprint :=
                                       js_or truthy_str (ci_device_fingerprint clockInData) Null,
                                     validation_status := Val validationStatus,
                                     device_id := ci_device_id clockInData,
                                     client_timestamp :=
                                       js_or truthy_val (ci_client_timestamp clockInData)
                                         (Val (At now)),
                                     synced := (if ci_synced clockInData \<noteq> Undefined
                                                then ci_synced clockInData else Val True),
                                     metadata := Val metadata4 \<rparr>) of
                           Inl msg \<Rightarrow> (db1, Inl (Thrown msg))
                         | Inr (db2, attendance) \<Rightarrow>
                             (log_activity
                                \<lparr> act_user_id = u_id usr, act_action = ''clock_in'',
                                  act_entity_type = ''attendance'',
                                  act_entity_id =
                                    (case rec_id attendance of
                                       Val n \<Rightarrow> Some (AttendanceRef n) | _ \<Rightarrow> None) \<rparr> db2,
                              Inr attendance))
                    | _ \<Rightarrow> (db1, Inl (Thrown ''invalid input syntax for type numeric''))))))"

text \<open>
  \<open>clockOut\<close>, checked against the facility of the active record (column
  \<open>facility_id\<close> is \<open>NOT NULL\<close>).
\<close>

definition clockOut ::
    "(database \<Rightarrow> string \<Rightarrow> real \<Rightarrow> real \<Rightarrow> string + geofence_result) \<Rightarrow>
     (attendance \<Rightarrow> string option) \<Rightarrow> int \<Rightarrow> database \<Rightarrow> clock_out_data \<Rightarrow> user
      \<Rightarrow> database \<times> (clock_error + attendance)" where
  "clockOut geofence reject now db clockOutData usr =
    (case findActiveByUserId db (u_id usr) of
       None \<Rightarrow> (db, Inl NotClockedIn)
     | Some activeAttendance \<Rightarrow>
        (let metadata0 = (spread (metadata activeAttendance) ++ spread (co_metadata clockOutData))
               (''clock_out_method'' \<mapsto>
                  JStr (if co_synced clockOutData = Val False then ''offline'' else ''online''));
             checks =
               (if co_synced clockOutData \<noteq> Val False then
                  (case online_checks geofence now db (u_id usr)
                          (case facility_id activeAttendance of Val f \<Rightarrow> f | _ \<Rightarrow> [])
                          (co_latitude clockOutData) (co_longitude clockOutData)
                          (co_accuracy clockOutData) (co_is_mocked clockOutData) of
                     (db1, Inl e) \<Rightarrow> (db1, Inl e)
                   | (db1, Inr c) \<Rightarrow>
                      (let m1 = (case sc_coordinate_warning c of
                                   Some w \<Rightarrow> metadata0(''clock_out_coordinate_warning'' \<mapsto> JStr w)
                                 | None \<Rightarrow> metadata0);
                           m2 = (if sp_warnings (sc_spoofing c) \<noteq> [] then
                                   m1(''clock_out_spoofing_warnings'' \<mapsto>
                                        JMessages (sp_warnings (sc_spoofing c)),
                                      ''clock_out_spoofing_flags'' \<mapsto>
                                        JList (flags (sc_spoofing c)))
                                 else m1);
                           m3 = m2(''clock_out_distance_from_facility'' \<mapsto>
                                     json_of_int_option (distance (sc_geofence c)),
                                   ''clock_out_gps_accuracy'' \<mapsto> JNum (sc_accuracy c));
                           m4 = (case or_null (gf_warning (sc_geofence c)) of
                                   Some w \<Rightarrow> m3(''clock_out_geofence_warning'' \<mapsto> JStr w)
                                 | None \<Rightarrow> m3)
                       in (db1, Inr (Val (sc_accuracy c),
                                     real_of_int_option (distance (sc_geofence c)), m4))))
                else (db, Inr (Null, Null, metadata0)))
         in case checks of
              (db1, Inl e) \<Rightarrow> (db1, Inl e)
            | (db1, Inr (clockOutAccuracyMeters, clockOutDistanceMeters, metadata4)) \<Rightarrow>
               (case (coordinate_param (co_latitude clockOutData),
                      coordinate_param (co_longitude clockOutData)) of
                  (Some latitude, Some longitude) \<Rightarrow>
                    (case repository_clockOut reject db1 activeAttendance
                            \<lparr> coi_clock_out_time =
                                js_or truthy_val (co_clock_out_time clockOutData) (Val (At now)),
                              coi_latitude = latitude,
                              coi_longitude = longitude,
                              coi_accuracy_meters = clockOutAccuracyMeters,
                              coi_distance_meters = clockOutDistanceMeters,
                              coi_notes = co_notes clockOutData,
                              coi_metadata = metadata4 \<rparr> of
                       Inl msg \<Rightarrow> (db1, Inl (Thrown msg))
                     | Inr (db2, attendance) \<Rightarrow>
                         (log_activity
                            \<lparr> act_user_id = u_id usr, act_action = ''clock_out'',
                              act_entity_type = ''attendance'',
                              act_entity_id =
                                (case rec_id attendance of
                                   Val n \<Rightarrow> Some (AttendanceRef n) | _ \<Rightarrow> None) \<rparr> db2,
                          Inr attendance))
                | _ \<Rightarrow> (db1, Inl (Thrown ''invalid input syntax for type numeric'')))))"

section \<open>Example data\<close>

text \<open>
  A small installation for the worked examples: one active user; passwords compared
  as plain text; a token that is hashed to itself, \<open>first\<close> when issued before instant
  2000 and \<open>second\<close> after; every token verifies for the user.
\<close>

definition example_user :: user where
  "example_user = \<lparr> u_id = ''u1'', u_email = ''worker@example.org'',
     u_password_hash = ''secret'', u_role = ''tester'', u_facility_id = Some ''f1'',
     u_is_active = True, u_last_login_at = None \<rparr>"

definition example_env :: auth_env where
  "example_env = \<lparr> verifyPassword = (\<lambda>password hash. password = hash),
     hashToken = (\<lambda>token. token),
     generateAccessToken = (\<lambda>now u. if now < 2000 then ''first'' else ''second''),
     generateRefreshToken = (\<lambda>now u. ''refresh''),
     jwtVerify = (\<lambda>now token. Verified ''u1''),
     expiresIn = Some (24, CHR ''h'') \<rparr>"

definition example_db :: database where
  "example_db = \<lparr> attendance_table = [], facilities_table = [],
     users_table = [example_user], activities_table = [],
     user_sessions_table = [], user_devices_table = [] \<rparr>"

text \<open>A database that refuses no statement.\<close>

definition accept_all :: "'a \<Rightarrow> string option" where
  "accept_all q = None"

text \<open>
  The same installation with tokens as \<open>jwt.sign\<close> makes them under HS256 with no
  \<open>jti\<close>: a function of the payload, here the user's id, and of the issue time in whole
  seconds. The hash keeps tokens apart.
\<close>

fun decimal :: "nat \<Rightarrow> string" where
  "decimal n = (if n < 10 then [''0123456789'' ! n]
                else decimal (n div 10) @ [''0123456789'' ! (n mod 10)])"

declare decimal.simps [simp del]

definition jwt_env :: auth_env where
  "jwt_env = \<lparr> verifyPassword = (\<lambda>password hash. password = hash),
     hashToken = (\<lambda>token. ''sha256:'' @ token),
     generateAccessToken = (\<lambda>now u. ''access.'' @ u_id u @ ''.'' @ decimal (nat (now div 1000))),
     generateRefreshToken = (\<lambda>now u. ''refresh.'' @ u_id u @ ''.'' @ decimal (nat (now div 1000))),
     jwtVerify = (\<lambda>now token. if take 7 token = ''access.''
                                then Verified (takeWhile (\<lambda>c. c \<noteq> CHR ''.'') (drop 7 token))
                                else JsonWebTokenError),
     expiresIn = Some (24, CHR ''h'') \<rparr>"



text \<open>
  Two logins of the example user that overlap, one begun at instant 10000 and one at
  12000: each has verified the password and invalidated the active sessions before
  either inserts its session.
\<close>

definition db_overlapping_logins :: database where
  "db_overlapping_logins =
     (let first_invalidated = fst (login_invalidate accept_all 10000 example_db example_user);
          both_invalidated =
            fst (login_invalidate accept_all 12000 first_invalidated example_user);
          first_created =
            fst (login_create jwt_env accept_all 10000 both_invalidated example_user
                   (generateAccessToken jwt_env 10000 example_user)
                   (generateRefreshToken jwt_env 10000 example_user) None None None)
      in fst (login_create jwt_env accept_all 12000 first_created example_user
                (generateAccessToken jwt_env 12000 example_user)
                (generateRefreshToken jwt_env 12000 example_user) None None None))"

text \<open>
  A clinic with its coordinates and one without, both with a radius of 100 m; a user's
  online clock-in some fifty metres from the first; the same request marked offline.
\<close>

definition example_clinic :: facility where
  "example_clinic = \<lparr> f_id = ''f1'', f_name = ''Clinic'',
     f_latitude = Some (-1.9536), f_longitude = Some 30.0606,
     f_geofence_radius = Some 100, f_is_active = True \<rparr>"

definition unlocated_clinic :: facility where
  "unlocated_clinic = \<lparr> f_id = ''f1'', f_name = ''Clinic'',
     f_latitude = None, f_longitude = None,
     f_geofence_radius = Some 100, f_is_active = True \<rparr>"

definition online_request :: clock_in_data where
  "online_request = \<lparr> ci_facility_id = Val ''f1'', ci_metadata = Undefined,
     ci_synced = Undefined, ci_device_fingerprint = Undefined,
     ci_latitude = Val (Num (-1.954)), ci_longitude = Val (Num 30.0609),
     ci_accuracy = Val 40, ci_is_mocked = Val False,
     ci_clock_in_time = Undefined, ci_device_id = Val ''device-1'',
     ci_client_timestamp = Undefined \<rparr>"

definition offline_request :: clock_in_data where
  "offline_request = \<lparr> ci_facility_id = Val ''f1'', ci_metadata = Undefined,
     ci_synced = Val False, ci_device_fingerprint = Undefined,
     ci_latitude = Undefined, ci_longitude = Undefined,
     ci_accuracy = Undefined, ci_is_mocked = Undefined,
     ci_clock_in_time = Undefined, ci_device_id = Val ''device-1'',
     ci_client_timestamp = Undefined \<rparr>"

text \<open>
  A completed shift as a device sends it for synchronisation, at version 2; the row
  stored for it at instant 900 when the device had sent it still open, at version 1;
  and the same shift sent at version \<open>2^53\<close>.
\<close>

definition device_shift :: attendance where
  "device_shift = blank_record
     \<lparr> user_id := Val ''u1'', facility_id := Val ''f1'',
       clock_in_time := Val (At 100), clock_out_time := Val (At 500),
       status := Val ''completed'',
       device_id := Val ''device-1'', client_timestamp := Val (At 800),
       sync_version := Val 2 \<rparr>"

definition stored_shift :: attendance where
  "stored_shift =
     bulkSync_new_row 900 7
       (device_shift \<lparr> clock_out_time := Undefined, status := Val ''active'',
                       sync_version := Val 1 \<rparr>)"




definition huge_version_shift :: attendance where
  "huge_version_shift = device_shift \<lparr> sync_version := Val 9007199254740992 \<rparr>"

text \<open>
  A record as a device may send it for synchronisation: clocked in at instant 100,
  clocked out at 500, its status still \<open>active\<close>; and the database, holding the
  example clinic, after the example user has synchronised the record at instant 900.
\<close>

definition open_but_clocked_out :: attendance where
  "open_but_clocked_out = blank_record
     \<lparr> facility_id := Val ''f1'', clock_in_time := Val (At 100),
       clock_out_time := Val (At 500), status := Val ''active'',
       device_id := Val ''device-1'', client_timestamp := Val (At 800) \<rparr>"




definition db_after_sync :: database where
  "db_after_sync =
     fst (syncOfflineRecords accept_all 900
            (example_db \<lparr> facilities_table := [example_clinic] \<rparr>)
            [open_but_clocked_out] example_user)"

section \<open>Properties of the synchronisation path\<close>

subsection \<open>Pre-validation of a record\<close>

lemma validate_ignores_user_id [simp]:
  "validateSyncMetadata now (r \<lparr> user_id := x \<rparr>) = validateSyncMetadata now r"
  by (simp add: validateSyncMetadata_def)


lemma stale_timestamp_invalid:
  "client_timestamp r = Val (At t) \<Longrightarrow> now - t > 30 * msPerDay \<Longrightarrow>
   \<not> isValid (validateSyncMetadata now r) \<and>
   ''client_timestamp is more than 30 days old'' \<in> set (v_errors (validateSyncMetadata now r))"
  by (simp add: validateSyncMetadata_def Let_def)

lemma future_timestamp_invalid:
  "client_timestamp r = Val (At t) \<Longrightarrow> now < t \<Longrightarrow>
   \<not> isValid (validateSyncMetadata now r) \<and>
   ''client_timestamp is in the future'' \<in> set (v_errors (validateSyncMetadata now r))"
  by (simp add: validateSyncMetadata_def Let_def)

text \<open>
  Claim C7. A record with a device id whose client timestamp is more than 30 days old
  should draw a warning and still be processed. The code has no warnings: the message
  goes to the error list, the record is invalid, and a batch that holds only this record
  is answered with \<open>success = False\<close> and an unchanged database. Here the record is
  stamped at instant 0 and validated 31 days later.
\<close>

theorem stale_record_is_rejected:
  "validateSyncMetadata (31 * msPerDay)
     (blank_record \<lparr> device_id := Val ''device-1'', client_timestamp := Val (At 0) \<rparr>) =
     \<lparr> isValid = False, v_errors = [''client_timestamp is more than 30 days old''] \<rparr> \<and>
   syncOfflineRecords (\<lambda>_. None) (31 * msPerDay) db
     [blank_record \<lparr> device_id := Val ''device-1'', client_timestamp := Val (At 0) \<rparr>] usr =
     (db, \<lparr> success = False, summary = None,
            validation_errors =
              [\<lparr> ve_index = 0,
                 ve_errors = [''client_timestamp is more than 30 days old''],
                 ve_record = blank_record \<lparr> device_id := Val ''device-1'',
                               client_timestamp := Val (At 0), user_id := Val (u_id usr) \<rparr> \<rparr>],
            sync_errors = [] \<rparr>)"
  by (simp add: syncOfflineRecords_def validateSyncMetadata_def blank_record_def msPerDay_def
        Let_def)


subsection \<open>Merging under \<open>client_wins\<close>\<close>

lemma double_succ_exact:
  "- (2 ^ 53) \<le> x \<Longrightarrow> x < 2 ^ 53 \<Longrightarrow> double_succ x = x + 1"
  by (simp add: double_succ_def)

lemma double_succ_stalls: "double_succ (2 ^ 53) = 2 ^ 53"
  by (simp add: double_succ_def)

lemma version_or_nonzero: "v \<noteq> 0 \<Longrightarrow> version_or (Val v) 1 = v"
  by (simp add: version_or_def)

lemma version_or_above: "v \<le> version_or (Val v) 1"
  by (simp add: version_or_def)

text \<open>
  Claim C6, as it stands, fails. The version is computed on doubles: for a device
  record at version \<open>2^53\<close> in conflict with a stored record at version 1, the merged
  record has version \<open>2^53\<close> again, which is neither \<open>max(client, server) + 1\<close> nor
  greater than the client's.
\<close>

theorem client_wins_version_stalls_counterexample:
  "sync_version huge_version_shift = Val 9007199254740992 \<and>
   sync_version stored_shift = Val 1 \<and>
   detectConflict huge_version_shift stored_shift \<and>
   resolved (resolveConflict 1000 huge_version_shift (Some stored_shift) ''client_wins'') =
     Some (mergeRecords 1000 huge_version_shift stored_shift ''client'') \<and>
   sync_version (mergeRecords 1000 huge_version_shift stored_shift ''client'') =
     Val 9007199254740992 \<and>
   (9007199254740992 :: int) \<noteq> max 9007199254740992 1 + 1"
  by (simp add: huge_version_shift_def device_shift_def stored_shift_def bulkSync_new_row_def
        blank_record_def detectConflict_def resolveConflict_def mergeRecords_def
        version_or_def double_succ_def)

text \<open>
  Claim C6, amended. A conflicting pair resolved with \<open>client_wins\<close>, whose larger
  version (a missing or zero one counting as 1) lies between \<open>-2^53\<close> and \<open>2^53\<close>,
  gives a merged record with the server's id and creation time, that larger version
  plus one, which is \<open>max(client, server) + 1\<close> when both records carry a version
  other than zero, and is above both; \<open>synced = true\<close>; and metadata that note the
  resolution. Merging a further client record into the result keeps id and creation
  time and raises the version again, as long as the versions stay below \<open>2^53\<close>.
\<close>

theorem client_wins_merge:
  assumes "detectConflict c s"
    and "- (2 ^ 53) \<le> larger_version c s" and "larger_version c s < 2 ^ 53"
  shows "\<exists>m md. resolved (resolveConflict now c (Some s) ''client_wins'') = Some m \<and>
           rec_id m = rec_id s \<and> created_at m = created_at s \<and>
           sync_version m = Val (larger_version c s + 1) \<and>
           (\<forall>cv sv. sync_version c = Val cv \<and> cv \<noteq> 0 \<and> sync_version s = Val sv \<and> sv \<noteq> 0
              \<longrightarrow> sync_version m = Val (max cv sv + 1)) \<and>
           (\<forall>cv. sync_version c = Val cv \<longrightarrow> cv < larger_version c s + 1) \<and>
           (\<forall>sv. sync_version s = Val sv \<longrightarrow> sv < larger_version c s + 1) \<and>
           synced m = Val True \<and>
           metadata m = Val md \<and>
           md ''conflict_resolved'' = Some (JBool True) \<and>
           md ''resolution_strategy'' = Some (JStr ''client'') \<and>
           md ''resolved_at'' = Some (JDate now) \<and>
           (larger_version c2 m < 2 ^ 53 \<longrightarrow>
              (\<exists>v2. sync_version (mergeRecords now2 c2 m ''client'') = Val v2 \<and>
                    larger_version c s + 1 < v2 \<and>
                    rec_id (mergeRecords now2 c2 m ''client'') = rec_id s \<and>
                    created_at (mergeRecords now2 c2 m ''client'') = created_at s))"
proof -
  let ?m = "mergeRecords now c s ''client''"
  let ?v = "larger_version c s"
  have res: "resolved (resolveConflict now c (Some s) ''client_wins'') = Some ?m"
    using assms(1) by (simp add: resolveConflict_def)
  have ver: "sync_version ?m = Val (?v + 1)"
    using double_succ_exact[OF assms(2,3)] by (simp add: mergeRecords_def)
  have both: "\<forall>cv sv. sync_version c = Val cv \<and> cv \<noteq> 0 \<and> sync_version s = Val sv \<and> sv \<noteq> 0
                \<longrightarrow> sync_version ?m = Val (max cv sv + 1)"
    using ver by (auto simp: version_or_nonzero)
  have above_c: "\<forall>cv. sync_version c = Val cv \<longrightarrow> cv < ?v + 1"
  proof (intro allI impI)
    fix cv assume "sync_version c = Val cv"
    then have "cv \<le> version_or (sync_version c) 1"
      by (simp add: version_or_above)
    then show "cv < ?v + 1" by simp
  qed
  have above_s: "\<forall>sv. sync_version s = Val sv \<longrightarrow> sv < ?v + 1"
  proof (intro allI impI)
    fix sv assume "sync_version s = Val sv"
    then have "sv \<le> version_or (sync_version s) 1"
      by (simp add: version_or_above)
    then show "sv < ?v + 1" by simp
  qed
  have keep: "rec_id ?m = rec_id s" "created_at ?m = created_at s" "synced ?m = Val True"
    by (simp_all add: mergeRecords_def)
  have md: "\<exists>md. metadata ?m = Val md \<and>
           md ''conflict_resolved'' = Some (JBool True) \<and>
           md ''resolution_strategy'' = Some (JStr ''client'') \<and>
           md ''resolved_at'' = Some (JDate now)"
    by (simp add: mergeRecords_def)
  have again: "\<exists>v2. sync_version (mergeRecords now2 c2 ?m ''client'') = Val v2 \<and>
                    ?v + 1 < v2 \<and>
                    rec_id (mergeRecords now2 c2 ?m ''client'') = rec_id s \<and>
                    created_at (mergeRecords now2 c2 ?m ''client'') = created_at s"
    if below: "larger_version c2 ?m < 2 ^ 53"
  proof -
    let ?w = "larger_version c2 ?m"
    have vm: "?v + 1 \<le> version_or (sync_version ?m) 1"
      using ver by (simp add: version_or_above)
    then have up: "?v + 1 \<le> ?w" by simp
    then have low: "- (2 ^ 53) \<le> ?w" using assms(2) by simp
    have "sync_version (mergeRecords now2 c2 ?m ''client'') = Val (?w + 1)"
      using double_succ_exact[OF low below] by (simp add: mergeRecords_def[of now2])
    moreover have "?v + 1 < ?w + 1" using up by simp
    moreover have "rec_id (mergeRecords now2 c2 ?m ''client'') = rec_id s"
      "created_at (mergeRecords now2 c2 ?m ''client'') = created_at s"
      using keep by (simp_all add: mergeRecords_def[of now2])
    ultimately show ?thesis by blast
  qed
  from md obtain md where "metadata ?m = Val md"
      "md ''conflict_resolved'' = Some (JBool True)"
      "md ''resolution_strategy'' = Some (JStr ''client'')"
      "md ''resolved_at'' = Some (JDate now)" by blast
  with res ver both above_c above_s keep again show ?thesis by blast
qed

theorem client_wins_merge_witness:
  "\<exists>m. resolved (resolveConflict 1000 device_shift (Some stored_shift) ''client_wins'') =
          Some m \<and>
       rec_id m = Val 7 \<and> created_at m = Val (At 900) \<and> sync_version m = Val 3 \<and>
       synced m = Val True"
proof -
  have h: "detectConflict device_shift stored_shift"
    by (simp add: detectConflict_def device_shift_def stored_shift_def bulkSync_new_row_def
          blank_record_def version_or_def)
  have v: "larger_version device_shift stored_shift = 2"
    by (simp add: version_or_def device_shift_def stored_shift_def bulkSync_new_row_def
          blank_record_def)
  have lo: "- (2 ^ 53) \<le> larger_version device_shift stored_shift"
    and hi: "larger_version device_shift stored_shift < 2 ^ 53"
    unfolding v by simp_all
  have ids: "rec_id stored_shift = Val 7" "created_at stored_shift = Val (At 900)"
    by (simp_all add: stored_shift_def bulkSync_new_row_def)
  from client_wins_merge[OF h lo hi, of 1000] obtain m where
    "resolved (resolveConflict 1000 device_shift (Some stored_shift) ''client_wins'') = Some m"
    "rec_id m = rec_id stored_shift" "created_at m = created_at stored_shift"
    "sync_version m = Val (larger_version device_shift stored_shift + 1)"
    "synced m = Val True"
    by blast
  then show ?thesis
    by (simp add: v ids)
qed


subsection \<open>A batch with one malformed record\<close>





text \<open>
  A record that the database refuses is another matter than one that fails validation.
  Once a statement has failed, every later record of the batch is answered with the
  error of the aborted transaction; and a batch whose first statement is refused
  leaves the database as it was, with one error for each record.
\<close>

lemma bulkSync_after_failure:
  "foldl (bulkSync_record reject now) (\<lparr> tx_table = table, tx_failed = True \<rparr>, res) rs =
     (\<lparr> tx_table = table, tx_failed = True \<rparr>,
      res \<lparr> errors := errors res @
               map (\<lambda>r. \<lparr> se_record = r, se_error = transaction_aborted \<rparr>) rs \<rparr>)"
proof (induction rs arbitrary: res)
  case Nil
  then show ?case by simp
next
  case (Cons r rs)
  have "bulkSync_record reject now (\<lparr> tx_table = table, tx_failed = True \<rparr>, res) r =
          (\<lparr> tx_table = table, tx_failed = True \<rparr>,
           res \<lparr> errors := errors res @
                    [\<lparr> se_record = r, se_error = transaction_aborted \<rparr>] \<rparr>)"
    by (simp add: bulkSync_record_def Let_def)
  with Cons.IH[of "res \<lparr> errors := errors res @
                    [\<lparr> se_record = r, se_error = transaction_aborted \<rparr>] \<rparr>"]
  show ?case by simp
qed

lemma refused_record_rolls_back_batch:
  assumes "reject (SelectExisting (to_sql (device_id r)) (to_sql (client_timestamp r))) =
             Some msg"
  shows "bulkSync reject now db (r # rs) =
           (db, \<lparr> inserted = [], updated = [],
                  errors = \<lparr> se_record = r, se_error = msg \<rparr> #
                           map (\<lambda>r. \<lparr> se_record = r, se_error = transaction_aborted \<rparr>) rs \<rparr>)"
proof -
  have "bulkSync_record reject now
          (\<lparr> tx_table = attendance_table db, tx_failed = False \<rparr>,
           \<lparr> inserted = [], updated = [], errors = [] \<rparr>) r =
          (\<lparr> tx_table = attendance_table db, tx_failed = True \<rparr>,
           \<lparr> inserted = [], updated = [], errors = [\<lparr> se_record = r, se_error = msg \<rparr>] \<rparr>)"
    using assms by (simp add: bulkSync_record_def Let_def)
  then show ?thesis
    by (simp add: bulkSync_def bulkSync_after_failure)
qed




subsection \<open>A record that matches a stored row\<close>



lemma find_existing_ignores_strategy [simp]:
  "find_existing table (record \<lparr> conflict_resolution_strategy := x \<rparr>) =
   find_existing table record"
  by (simp add: find_existing_def)







section \<open>Properties of sessions and authentication\<close>

lemma registerDevice_sessions [simp]:
  "user_sessions_table (registerDevice now db uid fp) = user_sessions_table db"
  by (simp add: registerDevice_def)

lemma registerDevice_users [simp]:
  "users_table (registerDevice now db uid fp) = users_table db"
  by (simp add: registerDevice_def)









text \<open>The tokens of the example: the issue time counts in whole seconds.\<close>

lemma decimal_10: "decimal 10 = ''10''"
  by (simp add: decimal.simps)

lemma decimal_12: "decimal 12 = ''12''"
  by (simp add: decimal.simps)








text \<open>
  The statements of a login are sent one by one, outside any transaction. When two
  logins of a user overlap, so that both have invalidated the active sessions before
  either inserts its own, both sessions stay active, and both tokens are let through.
\<close>

lemma overlapping_logins_leave_two_active:
  "map s_is_active (user_sessions_table db_overlapping_logins) = [True, True] \<and>
   map s_user_id (user_sessions_table db_overlapping_logins) = [''u1'', ''u1''] \<and>
   authenticate jwt_env None 13000 db_overlapping_logins (Some ''Bearer access.u1.10'') =
     Next (example_user \<lparr> u_last_login_at := Some 12000 \<rparr>) (Some 0) \<and>
   authenticate jwt_env None 13000 db_overlapping_logins (Some ''Bearer access.u1.12'') =
     Next (example_user \<lparr> u_last_login_at := Some 12000 \<rparr>) (Some 1)"
  by (simp add: db_overlapping_logins_def login_invalidate_def login_create_def
        invalidateUserSessions_def createSession_def invalidates_def log_activity_def
        authenticate_def findActiveSessionByToken_def getTokenExpirationDate_def
        jwt_env_def example_db_def example_user_def accept_all_def
        decimal_10 decimal_12 Let_def)




text \<open>
  Claim C10. When the session lookup throws, whatever the error, the middleware goes
  on to the user lookup: a token that verifies authenticates its active user, with no
  session attached, whatever the sessions table holds. With a working lookup and no
  active session for the token, the same request is refused.
\<close>

theorem authenticate_fails_open:
  assumes "take 7 header = ''Bearer ''"
    and "jwtVerify env now (drop 7 header) = Verified uid"
    and "filter (\<lambda>u. u_id u = uid \<and> u_is_active u) (users_table db) = usr # rest"
  shows "authenticate env (Some code) now db (Some header) = Next usr None \<and>
         (findActiveSessionByToken (hashToken env) now db (drop 7 header) = None \<longrightarrow>
          authenticate env None now db (Some header) =
            Unauthorized ''Session expired. Please log in again.''
              (Some ''SESSION_INVALIDATED''))"
proof -
  have ne: "header \<noteq> []" using assms(1) by auto
  show ?thesis
    using assms ne by (simp add: authenticate_def)
qed

theorem authenticate_fails_open_witness:
  "authenticate example_env (Some ''42P01'') 3000 example_db (Some ''Bearer first'') =
     Next example_user None \<and>
   findActiveSessionByToken (hashToken example_env) 3000 example_db ''first'' = None"
proof -
  have h1: "take 7 ''Bearer first'' = ''Bearer ''" by simp
  have h2: "jwtVerify example_env 3000 (drop 7 ''Bearer first'') = Verified ''u1''"
    by (simp add: example_env_def)
  have h3: "filter (\<lambda>u. u_id u = ''u1'' \<and> u_is_active u) (users_table example_db) =
              example_user # []"
    by (simp add: example_db_def example_user_def)
  have none: "findActiveSessionByToken (hashToken example_env) 3000 example_db ''first'' = None"
    by (simp add: findActiveSessionByToken_def example_db_def)
  from authenticate_fails_open[OF h1 h2 h3, of "''42P01''"] none show ?thesis
    by simp
qed


section \<open>Properties of the geofence\<close>

lemma significant_decimals_numeral:
  "significant_decimals (numeral k) d =
     (if d mod 10 = 0 then significant_decimals (pred_numeral k) (d div 10) else numeral k)"
  using significant_decimals.simps(2)[of "pred_numeral k" d]
  by (simp only: numeral_eq_Suc[of k, symmetric])

lemma decimals_of_example_latitude: "getDecimalPlaces (-1.954) = 3"
proof -
  have "\<lfloor>\<bar>- 1.954\<bar> * 10 ^ 10 + 1 / 2 :: real\<rfloor> = 19540000000" by simp
  then show ?thesis
    by (simp add: getDecimalPlaces_def significant_decimals_numeral)
qed

lemma decimals_of_example_longitude: "getDecimalPlaces 30.0609 = 4"
proof -
  have "\<lfloor>\<bar>30.0609\<bar> * 10 ^ 10 + 1 / 2 :: real\<rfloor> = 300609000000" by simp
  then show ?thesis
    by (simp add: getDecimalPlaces_def significant_decimals_numeral)
qed

lemma example_coordinates_valid:
  "validateGpsCoordinates (Val (Num (-1.954))) (Val (Num 30.0609)) =
     \<lparr> cv_isValid = True, cv_error = None, cv_warning = None \<rparr>"
  using decimals_of_example_latitude decimals_of_example_longitude
  by (simp add: validateGpsCoordinates_def)

text \<open>
  On the fallback path the comparison is made on the haversine distance itself, and
  the boundary is inside.
\<close>

lemma haversine_fallback_within:
  assumes "filter (\<lambda>f. f_id f = fid \<and> f_is_active f) (facilities_table db) = f # rest"
    and "f_latitude f = Some flat" and "f_longitude f = Some flon"
  shows "isWithinGeofence (haversine_fallback unconfigured db fid lat lon) \<longleftrightarrow>
           haversineDistance flat flon lat lon \<le> real_of_int (radius_of f)"
  using assms by (simp add: haversine_fallback_def Let_def)

text \<open>
  With PostGIS the comparison is made on the rounded distance: every point within the
  radius is accepted, and so are the points up to half a metre beyond it.
\<close>

lemma postgis_within_iff_rounded:
  assumes "facilities_table db = [f]" and "f_id f = fid" and "f_is_active f"
    and "f_latitude f = Some flat" and "f_longitude f = Some flon"
  shows "validateGeofence_with unconfigured (PostgisDistance st) db fid lat lon =
           Inr \<lparr> isWithinGeofence = (round (st flon flat lon lat) \<le> radius_of f),
                 distance = Some (round (st flon flat lon lat)),
                 maxRadius = Some (radius_of f),
                 gf_error = None, gf_warning = None,
                 facilityName = Some (f_name f), gf_method = Some ''postgis'' \<rparr>"
  using assms by (simp add: validateGeofence_with_def List.map_filter_simps Let_def)

lemma round_le_int_iff: "round (d :: real) \<le> r \<longleftrightarrow> d < real_of_int r + 1 / 2"
proof -
  have "round d \<le> r \<longleftrightarrow> \<lfloor>d + 1 / 2\<rfloor> < r + 1"
    by (simp add: round_def)
  also have "\<dots> \<longleftrightarrow> d + 1 / 2 < real_of_int (r + 1)"
    by (rule floor_less_iff)
  also have "\<dots> \<longleftrightarrow> d < real_of_int r + 1 / 2"
    by auto
  finally show ?thesis .
qed

text \<open>
  Claim C4. The point should be within the geofence exactly when the computed distance
  is at most the radius. With PostGIS at hand the code rounds the distance to whole
  metres before it compares: for the example clinic (radius 100 m) and a point that
  \<open>ST_DistanceSphere\<close> puts at 100.4 m, the answer is \<open>isWithinGeofence = true\<close> with a
  reported distance of 100, although 100.4 exceeds the radius.
\<close>

theorem postgis_distance_rounded_before_comparison:
  "validateGeofence (PostgisDistance (\<lambda>lon1 lat1 lon2 lat2. 100.4))
     (example_db \<lparr> facilities_table := [example_clinic] \<rparr>) ''f1'' (-1.954) 30.0609 =
     Inr \<lparr> isWithinGeofence = True, distance = Some 100, maxRadius = Some 100,
           gf_error = None, gf_warning = None, facilityName = Some ''Clinic'',
           gf_method = Some ''postgis'' \<rparr> \<and>
   \<not> (100.4 \<le> real_of_int (radius_of example_clinic))"
proof -
  have r: "round (100.4 :: real) = 100"
    by (simp add: round_def)
  show ?thesis
    using r
    by (simp add: validateGeofence_def validateGeofence_with_def List.map_filter_simps
          example_db_def example_clinic_def radius_of_def Let_def)
qed

subsection \<open>A facility without coordinates\<close>

text \<open>
  The copy of \<open>geofencing.js\<close> that blocks: for an active facility that lacks a
  coordinate, every query that does not fail for another reason ends in the error, and
  an online clock-in or clock-out is refused with the attendance table untouched.
\<close>

lemma fallback_blocks_unconfigured:
  assumes "filter (\<lambda>f. f_id f = fid \<and> f_is_active f) (facilities_table db) = f # rest"
    and "f_latitude f = None \<or> f_longitude f = None"
  shows "haversine_fallback blocked_unconfigured db fid lat lon =
           blocked_unconfigured (radius_of f)"
  using assms by (auto simp: haversine_fallback_def split: option.splits)

lemma no_located_facility:
  assumes "filter (\<lambda>f. f_id f = fid \<and> f_is_active f) fs = [f]"
    and "f_latitude f = None \<or> f_longitude f = None"
  shows "List.map_filter
           (\<lambda>f. case (f_latitude f, f_longitude f) of
                   (Some lat, Some lon) \<Rightarrow>
                     if f_id f = fid \<and> f_is_active f then Some (f, st lon lat ulon ulat)
                     else None
                 | _ \<Rightarrow> None) fs = []"
proof -
  have "\<forall>g \<in> set fs. f_id g = fid \<and> f_is_active g \<longrightarrow> g = f"
  proof (intro ballI impI)
    fix g assume "g \<in> set fs" "f_id g = fid \<and> f_is_active g"
    then have "g \<in> set (filter (\<lambda>f. f_id f = fid \<and> f_is_active f) fs)" by simp
    with assms(1) show "g = f" by simp
  qed
  with assms(2) show ?thesis
    by (auto simp: List.map_filter_def filter_empty_conv split: option.splits)
qed

lemma validateGeofence_blocks_unconfigured:
  assumes "filter (\<lambda>f. f_id f = fid \<and> f_is_active f) (facilities_table db) = [f]"
    and "f_latitude f = None \<or> f_longitude f = None"
  shows "validateGeofence (PostgisDistance st) db fid lat lon =
           Inr (blocked_unconfigured (radius_of f))"
    and "validateGeofence PostgisUnavailable db fid lat lon =
           Inr (blocked_unconfigured (radius_of f))"
    and "validateGeofence (QueryError e) db fid lat lon = Inl e"
proof -
  have fb: "filter (\<lambda>f. f_id f = fid \<and> f_is_active f) (facilities_table db) = f # []"
    using assms(1) by simp
  note blocked = fallback_blocks_unconfigured[OF fb assms(2)]
  note none = no_located_facility[OF assms(1) assms(2), where st = st and ulon = lon and ulat = lat]
  show "validateGeofence (PostgisDistance st) db fid lat lon =
           Inr (blocked_unconfigured (radius_of f))"
    using none blocked by (simp add: validateGeofence_def validateGeofence_with_def)
  show "validateGeofence PostgisUnavailable db fid lat lon =
           Inr (blocked_unconfigured (radius_of f))"
    using blocked by (simp add: validateGeofence_def validateGeofence_with_def)
  show "validateGeofence (QueryError e) db fid lat lon = Inl e"
    by (simp add: validateGeofence_def validateGeofence_with_def)
qed

text \<open>
  When the online checks pass, the geofence has answered without an error and with the
  point inside.
\<close>

lemma online_checks_passed:
  assumes "snd (online_checks geofence now db uid fid lat lon acc mocked) = Inr c"
  shows "\<exists>la lo a. lat = Val (Num la) \<and> lon = Val (Num lo) \<and> acc = Val a \<and>
           geofence (fst (runSpoofingChecks now db
                            \<lparr> ld_latitude = Val la, ld_longitude = Val lo,
                              ld_accuracy = Val a, ld_is_mocked = mocked \<rparr> uid))
                    fid la lo = Inr (sc_geofence c) \<and>
           or_null (gf_error (sc_geofence c)) = None \<and>
           isWithinGeofence (sc_geofence c)"
  using assms unfolding online_checks_def Let_def
  by (auto split: jsopt.splits jsnum.splits if_splits sum.splits option.splits list.splits)

lemma runSpoofingChecks_attendance [simp]:
  "attendance_table (fst (runSpoofingChecks now db ld uid)) = attendance_table db"
  by (simp add: runSpoofingChecks_def check_speed_def log_activity_def Let_def
        split: option.splits jsopt.splits)

lemma online_checks_attendance [simp]:
  "attendance_table (fst (online_checks geofence now db uid fid lat lon acc mocked)) =
   attendance_table db"
  unfolding online_checks_def Let_def
  by (auto split: jsopt.splits jsnum.splits if_splits sum.splits option.splits list.splits)

lemma runSpoofingChecks_facilities [simp]:
  "facilities_table (fst (runSpoofingChecks now db ld uid)) = facilities_table db"
  by (simp add: runSpoofingChecks_def check_speed_def log_activity_def Let_def
        split: option.splits jsopt.splits)

lemma blocking_copy_never_passes:
  assumes "filter (\<lambda>f. f_id f = fid \<and> f_is_active f) (facilities_table db) = [f]"
    and "f_latitude f = None \<or> f_longitude f = None"
    and "validateGeofence pg db fid lat lon = Inr g"
  shows "or_null (gf_error g) \<noteq> None"
proof (cases pg)
  case (PostgisDistance st)
  with validateGeofence_blocks_unconfigured(1)[OF assms(1,2), of st lat lon] assms(3)
  show ?thesis by (auto simp: blocked_unconfigured_def)
next
  case PostgisUnavailable
  with validateGeofence_blocks_unconfigured(2)[OF assms(1,2), of lat lon] assms(3)
  show ?thesis by (auto simp: blocked_unconfigured_def)
next
  case (QueryError e)
  with validateGeofence_blocks_unconfigured(3)[OF assms(1,2), of e lat lon] assms(3)
  show ?thesis by simp
qed

lemma clockIn_unconfigured_facility_blocked:
  assumes fac: "filter (\<lambda>f. f_id f = fid \<and> f_is_active f) (facilities_table db) = [f]"
    and unlocated: "f_latitude f = None \<or> f_longitude f = None"
    and chosen: "ci_facility_id clockInData = Val fid" "fid \<noteq> []"
    and online: "ci_synced clockInData \<noteq> Val False"
  shows "\<exists>e. snd (clockIn (validateGeofence pg) reject now db clockInData usr) = Inl e \<and>
           attendance_table (fst (clockIn (validateGeofence pg) reject now db clockInData usr)) =
             attendance_table db"
proof (cases "findActiveByUserId db (u_id usr)")
  case (Some a)
  then show ?thesis by (simp add: clockIn_def)
next
  case None
  let ?checks = "online_checks (validateGeofence pg) now db (u_id usr) fid
            (ci_latitude clockInData) (ci_longitude clockInData)
            (ci_accuracy clockInData) (ci_is_mocked clockInData)"
  have "\<exists>e. snd ?checks = Inl e"
  proof (cases "snd ?checks")
    case (Inl e)
    then show ?thesis by blast
  next
    case (Inr c)
    from online_checks_passed[OF Inr] obtain la lo a where
      g: "validateGeofence pg (fst (runSpoofingChecks now db
                            \<lparr> ld_latitude = Val la, ld_longitude = Val lo,
                              ld_accuracy = Val a,
                              ld_is_mocked = ci_is_mocked clockInData \<rparr> (u_id usr)))
                    fid la lo = Inr (sc_geofence c)"
      and ok: "or_null (gf_error (sc_geofence c)) = None" by blast
    have "or_null (gf_error (sc_geofence c)) \<noteq> None"
      by (rule blocking_copy_never_passes[OF _ unlocated g]) (simp add: fac)
    with ok show ?thesis by simp
  qed
  then obtain e where e: "snd ?checks = Inl e" by blast
  obtain d where d: "?checks = (d, Inl e)"
    using e by (metis prod.collapse)
  have "attendance_table d = attendance_table db"
    using online_checks_attendance[of "validateGeofence pg" now db "u_id usr" fid
            "ci_latitude clockInData" "ci_longitude clockInData"
            "ci_accuracy clockInData" "ci_is_mocked clockInData"] d by simp
  with None chosen d online show ?thesis
    by (simp add: clockIn_def Let_def)
qed

lemma online_checks_unconfigured_blocked:
  assumes fac: "filter (\<lambda>f. f_id f = fid \<and> f_is_active f) (facilities_table db) = [f]"
    and unlocated: "f_latitude f = None \<or> f_longitude f = None"
  shows "\<exists>e. snd (online_checks (validateGeofence pg) now db uid fid lat lon acc mocked) = Inl e"
proof (cases "snd (online_checks (validateGeofence pg) now db uid fid lat lon acc mocked)")
  case (Inl e)
  then show ?thesis by blast
next
  case (Inr c)
  from online_checks_passed[OF Inr] obtain la lo a where
    g: "validateGeofence pg (fst (runSpoofingChecks now db
                          \<lparr> ld_latitude = Val la, ld_longitude = Val lo,
                            ld_accuracy = Val a, ld_is_mocked = mocked \<rparr> uid))
                  fid la lo = Inr (sc_geofence c)"
    and ok: "or_null (gf_error (sc_geofence c)) = None" by blast
  have "or_null (gf_error (sc_geofence c)) \<noteq> None"
    by (rule blocking_copy_never_passes[OF _ unlocated g]) (simp add: fac)
  with ok show ?thesis by simp
qed

lemma clockOut_unconfigured_facility_blocked:
  assumes fac: "filter (\<lambda>f. f_id f = fid \<and> f_is_active f) (facilities_table db) = [f]"
    and unlocated: "f_latitude f = None \<or> f_longitude f = None"
    and active: "findActiveByUserId db (u_id usr) = Some a" "facility_id a = Val fid"
    and online: "co_synced clockOutData \<noteq> Val False"
  shows "\<exists>e. snd (clockOut (validateGeofence pg) reject now db clockOutData usr) = Inl e \<and>
           attendance_table (fst (clockOut (validateGeofence pg) reject now db clockOutData usr)) =
             attendance_table db"
proof -
  let ?checks = "online_checks (validateGeofence pg) now db (u_id usr) fid
            (co_latitude clockOutData) (co_longitude clockOutData)
            (co_accuracy clockOutData) (co_is_mocked clockOutData)"
  from online_checks_unconfigured_blocked[OF fac unlocated] obtain e where
    e: "snd ?checks = Inl e" by blast
  obtain d where d: "?checks = (d, Inl e)"
    using e by (metis prod.collapse)
  have "attendance_table d = attendance_table db"
    using online_checks_attendance[of "validateGeofence pg" now db "u_id usr" fid
            "co_latitude clockOutData" "co_longitude clockOutData"
            "co_accuracy clockOutData" "co_is_mocked clockOutData"] d by simp
  with active d online show ?thesis
    by (simp add: clockOut_def Let_def)
qed

text \<open>
  Claim C2. An active facility without coordinates must make \<open>validateGeofence\<close>
  return an error and block the operation. The other copy of \<open>geofencing.js\<close> answers
  \<open>isWithinGeofence = true\<close> with a warning and no error, and the online clock-in of the
  example goes through: a record is written, verified, with no distance.
\<close>

theorem unconfigured_facility_passes_in_skipping_copy:
  "validateGeofence_skipping (PostgisDistance (\<lambda>lon1 lat1 lon2 lat2. 0))
     (example_db \<lparr> facilities_table := [unlocated_clinic] \<rparr>) ''f1'' (-1.954) 30.0609 =
     Inr \<lparr> isWithinGeofence = True, distance = None, maxRadius = Some 100,
           gf_error = None,
           gf_warning = Some ''Facility coordinates not configured, geofencing skipped'',
           facilityName = None, gf_method = None \<rparr> \<and>
   map_sum (\<lambda>e. e) (\<lambda>a. (validation_status a, clock_in_distance_meters a, status a))
     (snd (clockIn (validateGeofence_skipping (PostgisDistance (\<lambda>lon1 lat1 lon2 lat2. 0)))
             (\<lambda>_. None) 1000
             (example_db \<lparr> facilities_table := [unlocated_clinic] \<rparr>)
             online_request example_user)) =
     Inr (Val ''verified'', Null, Val ''active'') \<and>
   length (attendance_table
     (fst (clockIn (validateGeofence_skipping (PostgisDistance (\<lambda>lon1 lat1 lon2 lat2. 0)))
             (\<lambda>_. None) 1000
             (example_db \<lparr> facilities_table := [unlocated_clinic] \<rparr>)
             online_request example_user))) = 1"
proof -
  let ?db = "example_db \<lparr> facilities_table := [unlocated_clinic] \<rparr>"
  let ?geo = "validateGeofence_skipping (PostgisDistance (\<lambda>lon1 lat1 lon2 lat2. 0))"
  have geo: "?geo d ''f1'' (-1.954) 30.0609 =
     Inr \<lparr> isWithinGeofence = True, distance = None, maxRadius = Some 100,
           gf_error = None,
           gf_warning = Some ''Facility coordinates not configured, geofencing skipped'',
           facilityName = None, gf_method = None \<rparr>"
    if "facilities_table d = [unlocated_clinic]" for d
    using that
    by (simp add: validateGeofence_skipping_def validateGeofence_with_def
          haversine_fallback_def skipped_unconfigured_def unlocated_clinic_def
          radius_of_def List.map_filter_simps)
  have spoof: "runSpoofingChecks 1000 ?db
                 \<lparr> ld_latitude = Val (-1.954), ld_longitude = Val 30.0609,
                   ld_accuracy = Val 40, ld_is_mocked = Val False \<rparr> ''u1'' =
               (?db, \<lparr> passed = True, sp_errors = [], sp_warnings = [], flags = [] \<rparr>)"
    by (simp add: runSpoofingChecks_def check_speed_def check_accuracy_def check_mock_def
          detectMockLocation_def validateGpsAccuracy_def getLastAttendanceWithLocation_def
          MAX_ACCEPTABLE_ACCURACY_def MIN_SUSPICIOUS_ACCURACY_def example_db_def
          List.map_filter_simps Let_def)
  have checks: "online_checks ?geo 1000 ?db ''u1'' ''f1'' (Val (Num (-1.954)))
                  (Val (Num 30.0609)) (Val 40) (Val False) =
     (?db, Inr \<lparr> sc_accuracy = 40, sc_coordinate_warning = None,
                 sc_spoofing = \<lparr> passed = True, sp_errors = [], sp_warnings = [], flags = [] \<rparr>,
                 sc_geofence = \<lparr> isWithinGeofence = True, distance = None,
                   maxRadius = Some 100, gf_error = None,
                   gf_warning = Some ''Facility coordinates not configured, geofencing skipped'',
                   facilityName = None, gf_method = None \<rparr> \<rparr>)"
    using geo[of ?db] example_coordinates_valid spoof
    by (simp add: online_checks_def MAX_ACCEPTABLE_ACCURACY_def Let_def)
  have none: "findActiveByUserId ?db ''u1'' = None"
    by (simp add: findActiveByUserId_def example_db_def)
  have result: "\<exists>row. clockIn ?geo (\<lambda>_. None) 1000 ?db online_request example_user =
          (log_activity \<lparr> act_user_id = ''u1'', act_action = ''clock_in'',
                          act_entity_type = ''attendance'',
                          act_entity_id = Some (AttendanceRef 0) \<rparr>
             (?db \<lparr> attendance_table := [row] \<rparr>), Inr row) \<and>
          validation_status row = Val ''verified'' \<and> clock_in_distance_meters row = Null \<and>
          status row = Val ''active''"
    using none checks
    by (simp add: clockIn_def online_request_def example_user_def Let_def
          repository_clockIn_def blank_record_def real_or_null_def js_or_def
          real_of_int_option_def example_db_def log_activity_def)
  then obtain row where
     "clockIn ?geo (\<lambda>_. None) 1000 ?db online_request example_user =
          (log_activity \<lparr> act_user_id = ''u1'', act_action = ''clock_in'',
                          act_entity_type = ''attendance'',
                          act_entity_id = Some (AttendanceRef 0) \<rparr>
             (?db \<lparr> attendance_table := [row] \<rparr>), Inr row)"
     "validation_status row = Val ''verified''" "clock_in_distance_meters row = Null"
     "status row = Val ''active''" by blast
  then show ?thesis
    using geo[of ?db] by (simp add: log_activity_def)
qed

section \<open>Properties of the speed check\<close>

text \<open>
  Between two locations none of whose coordinates is zero, the check fails exactly when
  no time has passed or the implied speed is above 150 km/h.
\<close>

lemma detectImpossibleSpeed_iff:
  assumes "loc_latitude l \<noteq> 0" and "loc_longitude l \<noteq> 0"
    and "loc_latitude c \<noteq> 0" and "loc_longitude c \<noteq> 0"
  shows "sc_suspicious (detectImpossibleSpeed (Some l) (Some c)) \<longleftrightarrow>
           loc_timestamp c - loc_timestamp l \<le> 0 \<or>
           haversineDistance (loc_latitude l) (loc_longitude l)
               (loc_latitude c) (loc_longitude c) / 1000 /
             (real_of_int (loc_timestamp c - loc_timestamp l) / (1000 * 60 * 60)) > 150"
proof -
  have "real_of_int (loc_timestamp c - loc_timestamp l) / (1000 * 60 * 60) \<le> 0 \<longleftrightarrow>
        loc_timestamp c - loc_timestamp l \<le> 0"
    by (simp add: divide_le_0_iff)
  then show ?thesis
    using assms by (auto simp: detectImpossibleSpeed_def Let_def MAX_SPEED_KMH_def)
qed

lemma no_prior_location_skips_check:
  "getLastAttendanceWithLocation db uid = None \<Longrightarrow>
   check_speed now db ld uid results = (db, results)"
  by (simp add: check_speed_def split: jsopt.splits)

lemma atan2_sin_cos:
  assumes "0 \<le> x" and "x < pi / 2"
  shows "atan2 (sin x) (cos x) = x"
proof -
  have low: "- (pi / 2) < x"
    using assms(1) pi_gt_zero by (simp add: less_le_trans[of _ 0])
  have c: "0 < cos x"
    using low assms(2) by (rule cos_gt_zero_pi)
  have "arctan (sin x / cos x) = x"
    using arctan_tan[OF low assms(2)] by (simp add: tan_def)
  with c show ?thesis by (simp add: atan2_def)
qed

text \<open>Along a meridian the distance is the radius times the difference in latitude.\<close>

lemma haversine_same_meridian:
  assumes "lat1 \<le> lat2" and "lat2 - lat1 < 180"
  shows "haversineDistance lat1 lon lat2 lon = 6371000 * ((lat2 - lat1) * pi / 180)"
proof -
  let ?h = "(lat2 - lat1) * pi / 180 / 2"
  have h0: "0 \<le> ?h" using assms(1) by simp
  have "(lat2 - lat1) * pi < 180 * pi"
    using assms(2) by simp
  then have h1: "?h < pi / 2" by simp
  have hpi: "?h \<le> pi" using h1 pi_gt_zero by linarith
  have low: "- (pi / 2) < ?h" using h0 pi_gt_zero by linarith
  have s: "0 \<le> sin ?h"
    using h0 hpi by (rule sin_ge_zero)
  have c: "0 < cos ?h"
    using low h1 by (rule cos_gt_zero_pi)
  have sq: "sqrt (sin ?h * sin ?h) = sin ?h"
    using s by simp
  have "1 - sin ?h * sin ?h = cos ?h * cos ?h"
    using sin_cos_squared_add[of ?h] by (simp add: power2_eq_square algebra_simps)
  then have cq: "sqrt (1 - sin ?h * sin ?h) = cos ?h"
    using c by simp
  have "haversineDistance lat1 lon lat2 lon = 6371000 * (2 * atan2 (sin ?h) (cos ?h))"
    using sq cq s by (simp add: haversineDistance_def Let_def)
  also have "\<dots> = 6371000 * (2 * ?h)"
    by (simp only: atan2_sin_cos[OF h0 h1])
  finally show ?thesis by simp
qed

lemma example_journey_too_fast:
  "haversineDistance (-1.954) 30.0609 0 30.0609 / 1000 /
     (real_of_int (2000 - 1000) / (1000 * 60 * 60)) > 150"
proof -
  have d: "haversineDistance (-1.954) 30.0609 0 30.0609 = 6371000 * (1.954 * pi / 180)"
    using haversine_same_meridian[of "-1.954" 0 "30.0609"] by simp
  have "6371000 * (1.954 * 2 / 180) \<le> 6371000 * (1.954 * pi / 180)"
    using pi_ge_two by simp
  then have "(100000 :: real) < 6371000 * (1.954 * pi / 180)"
    by simp
  then show ?thesis
    unfolding d by simp
qed

text \<open>
  Claim C5. With a prior location, the check should fail exactly when the implied speed
  exceeds 150 km/h or no time has passed. The code tests the coordinates for truthiness,
  so a coordinate that is exactly zero switches the check off. A user who clocked in at
  latitude -1.954 reports, one second later, a point on the equator on the same
  meridian, more than 200 km away: the implied speed is far above 150 km/h, yet the
  checks pass with no flag. The function itself does the same when the last point is
  (0, 0), here with a negative elapsed time.
\<close>

theorem zero_coordinate_disables_speed_check:
  "getLastAttendanceWithLocation
     (example_db \<lparr> attendance_table :=
        [blank_record \<lparr> rec_id := Val 0, user_id := Val ''u1'', facility_id := Val ''f1'',
           clock_in_time := Val (At 1000), clock_in_latitude := Val (-1.954),
           clock_in_longitude := Val 30.0609, status := Val ''completed'' \<rparr>] \<rparr>) ''u1'' =
     Some \<lparr> loc_latitude = -1.954, loc_longitude = 30.0609, loc_timestamp = 1000 \<rparr> \<and>
   haversineDistance (-1.954) 30.0609 0 30.0609 / 1000 /
     (real_of_int (2000 - 1000) / (1000 * 60 * 60)) > 150 \<and>
   runSpoofingChecks 2000
     (example_db \<lparr> attendance_table :=
        [blank_record \<lparr> rec_id := Val 0, user_id := Val ''u1'', facility_id := Val ''f1'',
           clock_in_time := Val (At 1000), clock_in_latitude := Val (-1.954),
           clock_in_longitude := Val 30.0609, status := Val ''completed'' \<rparr>] \<rparr>)
     \<lparr> ld_latitude = Val 0, ld_longitude = Val 30.0609, ld_accuracy = Val 40,
       ld_is_mocked = Val False \<rparr> ''u1'' =
     (example_db \<lparr> attendance_table :=
        [blank_record \<lparr> rec_id := Val 0, user_id := Val ''u1'', facility_id := Val ''f1'',
           clock_in_time := Val (At 1000), clock_in_latitude := Val (-1.954),
           clock_in_longitude := Val 30.0609, status := Val ''completed'' \<rparr>] \<rparr>,
      \<lparr> passed = True, sp_errors = [], sp_warnings = [], flags = [] \<rparr>) \<and>
   detectImpossibleSpeed
     (Some \<lparr> loc_latitude = 0, loc_longitude = 0, loc_timestamp = 2000 \<rparr>)
     (Some \<lparr> loc_latitude = 1, loc_longitude = 1, loc_timestamp = 1000 \<rparr>) =
     \<lparr> sc_suspicious = False, sc_speed = None, sc_reason = None \<rparr>"
  using example_journey_too_fast
  by (simp add: runSpoofingChecks_def check_speed_def check_accuracy_def check_mock_def
        detectMockLocation_def validateGpsAccuracy_def getLastAttendanceWithLocation_def
        detectImpossibleSpeed_def clock_in_ms_def blank_record_def example_db_def
        MAX_ACCEPTABLE_ACCURACY_def MIN_SUSPICIOUS_ACCURACY_def
        List.map_filter_simps Let_def)

section \<open>Properties of the clock-in\<close>

lemma latest_by_None: "latest_by key xs = None \<longleftrightarrow> xs = []"
  by (induction xs) (auto split: option.splits)

lemma findActiveByUserId_Some:
  assumes "row \<in> set (attendance_table db)" and "user_id row = Val uid"
    and "status row = Val ''active''" and "sql_is_null (clock_out_time row)"
  shows "\<exists>a. findActiveByUserId db uid = Some a"
proof -
  have "row \<in> set (filter (\<lambda>row. user_id row = Val uid \<and> status row = Val ''active'' \<and>
                       sql_is_null (clock_out_time row)) (attendance_table db))"
    using assms by simp
  then have "filter (\<lambda>row. user_id row = Val uid \<and> status row = Val ''active'' \<and>
                       sql_is_null (clock_out_time row)) (attendance_table db) \<noteq> []"
    by (metis empty_iff list.set(1))
  then have "findActiveByUserId db uid \<noteq> None"
    by (simp add: findActiveByUserId_def latest_by_None)
  then show ?thesis by auto
qed

lemma db_after_sync_rows:
  "attendance_table db_after_sync =
     [bulkSync_new_row 900 0 (open_but_clocked_out \<lparr> user_id := Val ''u1'' \<rparr>)]"
  by (simp add: db_after_sync_def syncOfflineRecords_def validateSyncMetadata_def
        open_but_clocked_out_def blank_record_def example_user_def example_db_def
        msPerDay_def bulkSync_def bulkSync_record_def find_existing_def accept_all_def
        log_activity_def Let_def)

text \<open>
  Claim C1, as it stands, fails: a record with status \<open>active\<close> that carries a
  clock-out time is not found by \<open>findActiveByUserId\<close>, and the user clocks in again.
  Such a record is in the table once the example user has synchronised it; the offline
  request of the example is then accepted and a second record is written.
\<close>

theorem active_status_with_clock_out_counterexample:
  "attendance_table db_after_sync =
     [bulkSync_new_row 900 0 (open_but_clocked_out \<lparr> user_id := Val ''u1'' \<rparr>)] \<and>
   user_id (bulkSync_new_row 900 0 (open_but_clocked_out \<lparr> user_id := Val ''u1'' \<rparr>)) =
     Val (u_id example_user) \<and>
   status (bulkSync_new_row 900 0 (open_but_clocked_out \<lparr> user_id := Val ''u1'' \<rparr>)) =
     Val ''active'' \<and>
   clock_out_time (bulkSync_new_row 900 0 (open_but_clocked_out \<lparr> user_id := Val ''u1'' \<rparr>)) =
     Val (At 500) \<and>
   snd (clockIn (validateGeofence PostgisUnavailable) accept_all 1000 db_after_sync
          offline_request example_user) \<noteq> Inl AlreadyClockedIn \<and>
   length (attendance_table
     (fst (clockIn (validateGeofence PostgisUnavailable) accept_all 1000 db_after_sync
          offline_request example_user))) = 2"
proof -
  have row: "user_id (bulkSync_new_row 900 0 (open_but_clocked_out \<lparr> user_id := Val ''u1'' \<rparr>)) =
               Val (u_id example_user)"
    "status (bulkSync_new_row 900 0 (open_but_clocked_out \<lparr> user_id := Val ''u1'' \<rparr>)) =
       Val ''active''"
    "clock_out_time (bulkSync_new_row 900 0 (open_but_clocked_out \<lparr> user_id := Val ''u1'' \<rparr>)) =
       Val (At 500)"
    by (simp_all add: bulkSync_new_row_def open_but_clocked_out_def blank_record_def
          example_user_def js_or_def)
  have none: "findActiveByUserId db_after_sync ''u1'' = None"
    by (simp add: findActiveByUserId_def db_after_sync_rows bulkSync_new_row_def
          open_but_clocked_out_def blank_record_def js_or_def)
  have "snd (clockIn (validateGeofence PostgisUnavailable) accept_all 1000 db_after_sync
          offline_request example_user) \<noteq> Inl AlreadyClockedIn \<and>
        length (attendance_table
          (fst (clockIn (validateGeofence PostgisUnavailable) accept_all 1000 db_after_sync
          offline_request example_user))) = 2"
    using none
    by (simp add: clockIn_def offline_request_def example_user_def db_after_sync_rows
          repository_clockIn_def blank_record_def real_or_null_def js_or_def
          accept_all_def log_activity_def Let_def)
  with row db_after_sync_rows show ?thesis by simp
qed

text \<open>
  Claim C1, amended. For every user who has a record with status \<open>active\<close> and no
  clock-out time, and for every request, valid or not, \<open>clockIn\<close> fails with
  \<open>AlreadyClockedIn\<close> and leaves the database as it was: the check comes before any
  look at the request.
\<close>

theorem clockIn_rejected_while_active:
  assumes "row \<in> set (attendance_table db)" and "user_id row = Val (u_id usr)"
    and "status row = Val ''active''" and "sql_is_null (clock_out_time row)"
  shows "clockIn geofence reject now db clockInData usr = (db, Inl AlreadyClockedIn)"
proof -
  from findActiveByUserId_Some[OF assms] obtain a where
    "findActiveByUserId db (u_id usr) = Some a" by blast
  then show ?thesis by (simp add: clockIn_def)
qed

theorem clockIn_rejected_while_active_witness:
  "clockIn (validateGeofence PostgisUnavailable) accept_all 1000
     (example_db \<lparr> attendance_table :=
        [blank_record \<lparr> rec_id := Val 0, user_id := Val ''u1'', facility_id := Val ''f1'',
           clock_in_time := Val (At 100), clock_out_time := Null,
           status := Val ''active'' \<rparr>] \<rparr>)
     offline_request example_user =
   (example_db \<lparr> attendance_table :=
        [blank_record \<lparr> rec_id := Val 0, user_id := Val ''u1'', facility_id := Val ''f1'',
           clock_in_time := Val (At 100), clock_out_time := Null,
           status := Val ''active'' \<rparr>] \<rparr>, Inl AlreadyClockedIn)"
proof -
  let ?row = "blank_record \<lparr> rec_id := Val 0, user_id := Val ''u1'', facility_id := Val ''f1'',
           clock_in_time := Val (At 100), clock_out_time := Null,
           status := Val ''active'' \<rparr>"
  let ?db = "example_db \<lparr> attendance_table := [?row] \<rparr>"
  have h1: "?row \<in> set (attendance_table ?db)" by simp
  have h2: "user_id ?row = Val (u_id example_user)"
    by (simp add: example_user_def)
  have h3: "status ?row = Val ''active''" by simp
  have h4: "sql_is_null (clock_out_time ?row)" by simp
  show ?thesis
    by (rule clockIn_rejected_while_active[OF h1 h2 h3 h4])
qed

end
